theory Spec2Isabelle
  imports Complex_Main "HOL-Library.Log_Nat" "HOL-Library.Sublist"
begin

section \<open>JavaScript numbers\<close>

text \<open>
  A JavaScript \<^verbatim>\<open>number\<close> is an IEEE 754 binary64 value: \<^verbatim>\<open>NaN\<close>, one of the two
  infinities, or a finite value, kept here as the rational it denotes. The two zeros are
  one value (\<^verbatim>\<open><\<close> and \<^verbatim>\<open>===\<close> do not tell them apart, and nothing below divides by a
  computed zero). Every arithmetic operation computes the exact result and rounds it to
  the nearest binary64 value, ties to the even significand.
\<close>

datatype number = NaN | NegInf | Fin rat | PosInf

definition pow2 :: "int \<Rightarrow> rat" where
  "pow2 e = (if 0 \<le> e then 2 ^ nat e else 1 / 2 ^ nat (- e))"

text \<open>For \<open>x > 0\<close>, the exponent \<open>e\<close> with \<open>2\<^sup>e \<le> x < 2\<^sup>e\<^sup>+\<^sup>1\<close>.\<close>

definition floor_log2 :: "rat \<Rightarrow> int" where
  "floor_log2 x =
     (let e = bitlen (fst (quotient_of x)) - bitlen (snd (quotient_of x))
      in if pow2 e \<le> x then e else e - 1)"

definition round_half_even :: "rat \<Rightarrow> int" where
  "round_half_even y =
     (let f = \<lfloor>y\<rfloor>; d = y - of_int f
      in if d < 1 / 2 then f else if 1 / 2 < d then f + 1 else if even f then f else f + 1)"

text \<open>
  Rounding to binary64: 53 significant bits, the least exponent \<open>-1022\<close> (below it the
  spacing stays \<open>2\<^sup>-\<^sup>1\<^sup>0\<^sup>7\<^sup>4\<close>, the subnormal numbers), overflow to an infinity from
  \<open>2\<^sup>1\<^sup>0\<^sup>2\<^sup>4\<close> on.
\<close>

definition round64 :: "rat \<Rightarrow> number" where
  "round64 x =
     (if x = 0 then Fin 0
      else let e = max (floor_log2 \<bar>x\<bar>) (- 1022);
               q = pow2 (e - 52);
               r = of_int (round_half_even (x / q)) * q
           in if pow2 1024 \<le> r then PosInf
              else if r \<le> - pow2 1024 then NegInf
              else Fin r)"

fun js_add :: "number \<Rightarrow> number \<Rightarrow> number" where
  "js_add NaN _ = NaN"
| "js_add _ NaN = NaN"
| "js_add PosInf NegInf = NaN"
| "js_add NegInf PosInf = NaN"
| "js_add PosInf _ = PosInf"
| "js_add _ PosInf = PosInf"
| "js_add NegInf _ = NegInf"
| "js_add _ NegInf = NegInf"
| "js_add (Fin a) (Fin b) = round64 (a + b)"

definition inf_of_sign :: "bool \<Rightarrow> number" where
  "inf_of_sign negative = (if negative then NegInf else PosInf)"

fun js_mul :: "number \<Rightarrow> number \<Rightarrow> number" where
  "js_mul NaN _ = NaN"
| "js_mul _ NaN = NaN"
| "js_mul (Fin a) (Fin b) = round64 (a * b)"
| "js_mul (Fin a) PosInf = (if a = 0 then NaN else inf_of_sign (a < 0))"
| "js_mul (Fin a) NegInf = (if a = 0 then NaN else inf_of_sign (0 < a))"
| "js_mul PosInf (Fin b) = (if b = 0 then NaN else inf_of_sign (b < 0))"
| "js_mul NegInf (Fin b) = (if b = 0 then NaN else inf_of_sign (0 < b))"
| "js_mul PosInf PosInf = PosInf"
| "js_mul NegInf NegInf = PosInf"
| "js_mul PosInf NegInf = NegInf"
| "js_mul NegInf PosInf = NegInf"

fun js_div :: "number \<Rightarrow> number \<Rightarrow> number" where
  "js_div NaN _ = NaN"
| "js_div _ NaN = NaN"
| "js_div (Fin a) (Fin b) =
     (if b = 0 then (if a = 0 then NaN else inf_of_sign (a < 0)) else round64 (a / b))"
| "js_div (Fin a) PosInf = Fin 0"
| "js_div (Fin a) NegInf = Fin 0"
| "js_div PosInf (Fin b) = inf_of_sign (b < 0)"
| "js_div NegInf (Fin b) = inf_of_sign (0 \<le> b)"
| "js_div PosInf PosInf = NaN"
| "js_div PosInf NegInf = NaN"
| "js_div NegInf PosInf = NaN"
| "js_div NegInf NegInf = NaN"

text \<open>The comparison \<^verbatim>\<open><\<close> on numbers: false as soon as one side is \<^verbatim>\<open>NaN\<close>.\<close>

fun js_lt :: "number \<Rightarrow> number \<Rightarrow> bool" where
  "js_lt NaN _ = False"
| "js_lt _ NaN = False"
| "js_lt (Fin a) (Fin b) = (a < b)"
| "js_lt NegInf NegInf = False"
| "js_lt NegInf _ = True"
| "js_lt _ NegInf = False"
| "js_lt PosInf _ = False"
| "js_lt _ PosInf = True"

definition js_le :: "number \<Rightarrow> number \<Rightarrow> bool" where
  "js_le x y \<longleftrightarrow> x \<noteq> NaN \<and> y \<noteq> NaN \<and> (js_lt x y \<or> x = y)"

text \<open>
  \<^verbatim>\<open>Math.round\<close>: the nearest integer, a tie towards \<open>+\<infinity>\<close>; the result is always a
  binary64 value. \<^verbatim>\<open>Math.min\<close> and \<^verbatim>\<open>Math.max\<close> walk their arguments from \<open>+\<infinity>\<close>
  (from \<open>-\<infinity>\<close>), return \<^verbatim>\<open>NaN\<close> at the first \<^verbatim>\<open>NaN\<close> argument and otherwise keep the
  least (greatest) argument seen; \<^verbatim>\<open>Math.min(...xs)\<close> passes the elements of \<open>xs\<close> as
  the arguments.
\<close>

fun Math_round :: "number \<Rightarrow> number" where
  "Math_round (Fin a) = Fin (of_int \<lfloor>a + 1 / 2\<rfloor>)"
| "Math_round x = x"

fun min_loop :: "number \<Rightarrow> number list \<Rightarrow> number" where
  "min_loop lowest [] = lowest"
| "min_loop lowest (x # xs) =
     (if x = NaN then NaN else min_loop (if js_lt x lowest then x else lowest) xs)"

definition Math_min :: "number list \<Rightarrow> number" where
  "Math_min xs = min_loop PosInf xs"

fun max_loop :: "number \<Rightarrow> number list \<Rightarrow> number" where
  "max_loop highest [] = highest"
| "max_loop highest (x # xs) =
     (if x = NaN then NaN else max_loop (if js_lt highest x then x else highest) xs)"

definition Math_max :: "number list \<Rightarrow> number" where
  "Math_max xs = max_loop NegInf xs"

text \<open>A number put into a template literal, for the non-negative integers used below.\<close>

definition digit_char :: "nat \<Rightarrow> char" where
  "digit_char d = ''0123456789'' ! d"

function string_of_nat :: "nat \<Rightarrow> string" where
  "string_of_nat n =
     (if n < 10 then [digit_char n] else string_of_nat (n div 10) @ [digit_char (n mod 10)])"
  by pat_completeness auto
termination
  by (relation "measure id") auto

section \<open>Array helpers of the JavaScript runtime\<close>

text \<open>
  \<^verbatim>\<open>Array.prototype.filter\<close> hands the callback the element and its index; the walk
  goes from index 0 upwards and keeps the elements in their order.
\<close>

fun filter_idx :: "('a \<Rightarrow> nat \<Rightarrow> bool) \<Rightarrow> nat \<Rightarrow> 'a list \<Rightarrow> 'a list" where
  "filter_idx f i [] = []"
| "filter_idx f i (x # xs) =
     (if f x i then x # filter_idx f (Suc i) xs else filter_idx f (Suc i) xs)"

definition js_filter :: "('a \<Rightarrow> nat \<Rightarrow> bool) \<Rightarrow> 'a list \<Rightarrow> 'a list" where
  "js_filter f xs = filter_idx f 0 xs"

section \<open>The time frame of the short-term chart\<close>

text \<open>
  The state cell \<^verbatim>\<open>timeframe\<close> holds one of the string literals \<^verbatim>\<open>'24h'\<close>, \<^verbatim>\<open>'7d'\<close>,
  \<^verbatim>\<open>'30d'\<close>; the union type is erased at run time, so the cell is a string here.
  Line 55 of \<^verbatim>\<open>App.tsx\<close>:
  \<^verbatim>\<open>const days = timeframe === '24h' ? 1 : timeframe === '7d' ? 7 : 30\<close>
\<close>

definition is_Timeframe :: "string \<Rightarrow> bool" where
  "is_Timeframe tf \<longleftrightarrow> tf = ''24h'' \<or> tf = ''7d'' \<or> tf = ''30d''"

definition days :: "string \<Rightarrow> nat" where
  "days timeframe = (if timeframe = ''24h'' then 1 else if timeframe = ''7d'' then 7 else 30)"

section \<open>Data of the application\<close>

text \<open>
  What a member of a parsed body reads as, and what a state cell can hold:
  \<^verbatim>\<open>undefined\<close> (the member is missing), \<^verbatim>\<open>null\<close>, a number, or another primitive
  JSON value (a string or a boolean). Arrays and objects as values of \<^verbatim>\<open>usd\<close> and
  \<^verbatim>\<open>usd_24h_change\<close> are left out.
\<close>

datatype js_value = Undefined | Null | Num number | Other_value

definition is_number :: "js_value \<Rightarrow> bool" where
  "is_number v = (case v of Num _ \<Rightarrow> True | _ \<Rightarrow> False)"

text \<open>
  The interfaces of \<^verbatim>\<open>App.tsx\<close>. \<^verbatim>\<open>PriceData\<close> declares both members as numbers, but
  line 41 only annotates the parsed body and nothing checks it, so each member is what
  the response carries. \<^verbatim>\<open>HistoricalData\<close> has the members \<^verbatim>\<open>date\<close> and \<^verbatim>\<open>price\<close> in
  the source; they carry the prefix \<open>hist_\<close> here, to keep them apart from the members
  of \<^verbatim>\<open>ChartData\<close>.
\<close>

record PriceData =
  usd :: js_value
  usd_24h_change :: js_value

record ChartData =
  timestamp :: number
  price :: number
  date :: "string option"

record HistoricalData =
  hist_date :: string
  hist_price :: number

text \<open>
  What a \<^verbatim>\<open>catch\<close> clause receives: an \<^verbatim>\<open>Error\<close> instance with its message, or any
  other thrown value.
\<close>

datatype thrown = Error string | NonError

text \<open>
  The parsed body of a response, at the shapes the fetchers read: \<^verbatim>\<open>null\<close>; a value
  with the member \<^verbatim>\<open>ethereum\<close>; an object with the member \<^verbatim>\<open>prices\<close> (an array of
  pairs of numbers); or any other JSON value, which has neither member. The member
  \<^verbatim>\<open>ethereum\<close> is \<^verbatim>\<open>null\<close> or a value whose members \<^verbatim>\<open>usd\<close> and \<^verbatim>\<open>usd_24h_change\<close> read
  as the record says (for an object what it holds, for a number, a string or a boolean
  \<^verbatim>\<open>undefined\<close> twice).
\<close>

datatype ethereum = Null_ethereum | Ethereum PriceData

datatype body =
    Null_body
  | Quote_body ethereum
  | Chart_body "(number \<times> number) list"
  | Other_body

text \<open>
  A \<^verbatim>\<open>Response\<close>: its status, and what \<^verbatim>\<open>await response.json()\<close> gives (it rejects
  when the body is not JSON). \<^verbatim>\<open>response.ok\<close> is true for the statuses 200 to 299.
\<close>

record Response =
  status :: nat
  json :: "thrown + body"

definition ok :: "Response \<Rightarrow> bool" where
  "ok response \<longleftrightarrow> 200 \<le> status response \<and> status response \<le> 299"

text \<open>
  The state cells of the component (lines 22 to 30), with the two effects on the world
  that the fetchers have besides them: the lines written by \<^verbatim>\<open>console.error\<close> and the
  URLs requested with \<^verbatim>\<open>fetch\<close>, both in the order they happened. A \<^verbatim>\<open>Date\<close> is the
  clock reading it holds. The cells \<^verbatim>\<open>ethPrice\<close> and \<^verbatim>\<open>priceChange24h\<close> are declared
  \<^verbatim>\<open>number | null\<close>; they hold what the setters are given.
\<close>

record state =
  ethPrice :: js_value
  priceChange24h :: js_value
  loading :: bool
  error :: "string option"
  chartData :: "ChartData list"
  timeframe :: string
  lastUpdate :: "nat option"
  historicalData :: "HistoricalData list"
  loadingHistory :: bool
  console :: "(string \<times> thrown) list"
  requests :: "string list"

definition initial_state :: state where
  "initial_state =
     \<lparr>ethPrice = Null, priceChange24h = Null, loading = True, error = None, chartData = [],
      timeframe = ''24h'', lastUpdate = None, historicalData = [], loadingHistory = False,
      console = [], requests = []\<rparr>"

section \<open>The fetchers\<close>

text \<open>
  An \<^verbatim>\<open>async\<close> fetcher runs up to its \<^verbatim>\<open>await fetch(...)\<close>, is suspended there, and
  runs to its end once the request has settled; between \<^verbatim>\<open>await fetch(...)\<close> and the
  end of \<^verbatim>\<open>await response.json()\<close> it reads and writes no state cell, so the two
  awaits are one suspension here. Each fetcher is therefore two state transformers:
  \<open>_begin\<close>, up to the suspension, and \<open>_end\<close>, from the settled request (\<open>Inl\<close>:
  \<^verbatim>\<open>fetch\<close> rejected, \<open>Inr\<close>: the response) on. The part of a \<^verbatim>\<open>try\<close> block that can
  throw comes first in all three fetchers and is a value of \<open>thrown + _\<close>; the setters
  run after it, or the \<^verbatim>\<open>catch\<close> clause does. The setter calls of one synchronous run
  are one change of the state (React applies them together). The function with the
  name of the source is \<open>_end\<close> after \<open>_begin\<close>, with nothing running in between.
\<close>

definition http_check :: "Response \<Rightarrow> thrown + Response" where
  "http_check response =
     (if \<not> ok response
      then Inl (Error (''HTTP error! status: '' @ string_of_nat (status response)))
      else Inr response)"

text \<open>
  Reading a member of \<^verbatim>\<open>undefined\<close> or of \<^verbatim>\<open>null\<close> throws a \<^verbatim>\<open>TypeError\<close>; its
  message is the engine's (here V8's wording).
\<close>

definition cannot_read :: "string \<Rightarrow> string \<Rightarrow> thrown" where
  "cannot_read what name =
     Error (''Cannot read properties of '' @ what @ '' (reading '' @ [CHR 0x27] @ name @ [CHR 0x27] @ '')'')"

definition undefined_member :: "string \<Rightarrow> thrown" where
  "undefined_member name = cannot_read ''undefined'' name"

definition null_member :: "string \<Rightarrow> thrown" where
  "null_member name = cannot_read ''null'' name"

definition quote_url :: string where
  "quote_url = ''https://api.coingecko.com/api/v3/simple/price?ids=ethereum&vs_currencies=usd&include_24hr_change=true''"

definition chart_url :: "nat \<Rightarrow> string" where
  "chart_url d =
     ''https://api.coingecko.com/api/v3/coins/ethereum/market_chart?vs_currency=usd&days='' @ string_of_nat d"

definition historical_url :: string where
  "historical_url = ''https://api.coingecko.com/api/v3/coins/ethereum/market_chart?vs_currency=usd&days=3650''"

subsection \<open>\<^verbatim>\<open>fetchEthPrice\<close> (lines 32 to 51)\<close>

definition fetchEthPrice_begin :: "state \<Rightarrow> state" where
  "fetchEthPrice_begin s = s\<lparr>requests := requests s @ [quote_url]\<rparr>"

definition quote_try :: "thrown + Response \<Rightarrow> thrown + PriceData" where
  "quote_try fetched =
     (case fetched of
        Inl err \<Rightarrow> Inl err
      | Inr response \<Rightarrow>
          (case http_check response of
             Inl err \<Rightarrow> Inl err
           | Inr _ \<Rightarrow>
               (case json response of
                  Inl err \<Rightarrow> Inl err
                | Inr Null_body \<Rightarrow> Inl (null_member ''ethereum'')
                | Inr (Quote_body Null_ethereum) \<Rightarrow> Inl (null_member ''usd'')
                | Inr (Quote_body (Ethereum ethereum)) \<Rightarrow> Inr ethereum
                | Inr _ \<Rightarrow> Inl (undefined_member ''usd''))))"

definition fetchEthPrice_end :: "nat \<Rightarrow> thrown + Response \<Rightarrow> state \<Rightarrow> state" where
  "fetchEthPrice_end now fetched s =
     (case quote_try fetched of
        Inr ethereum \<Rightarrow>
          s\<lparr>ethPrice := usd ethereum,
            priceChange24h := usd_24h_change ethereum,
            lastUpdate := Some now,
            error := None\<rparr>
      | Inl err \<Rightarrow>
          (let errorMsg = (case err of Error message \<Rightarrow> message
                           | NonError \<Rightarrow> ''Failed to fetch ETH price'')
           in s\<lparr>error := Some (''Error: '' @ errorMsg @ ''. Retrying...''),
                console := console s @ [(''Fetch error:'', err)]\<rparr>))"

definition fetchEthPrice :: "nat \<Rightarrow> thrown + Response \<Rightarrow> state \<Rightarrow> state" where
  "fetchEthPrice now fetched s = fetchEthPrice_end now fetched (fetchEthPrice_begin s)"

subsection \<open>\<^verbatim>\<open>fetchChartData\<close> (lines 53 to 72)\<close>

text \<open>
  \<^verbatim>\<open>timeframe\<close> is the value the closure captured at the render that created the
  function, so it is an argument (\<open>tf\<close>).
\<close>

definition fetchChartData_begin :: "string \<Rightarrow> state \<Rightarrow> state" where
  "fetchChartData_begin tf s = s\<lparr>requests := requests s @ [chart_url (days tf)]\<rparr>"

definition format_chart :: "(number \<times> number) list \<Rightarrow> ChartData list" where
  "format_chart prices =
     map (\<lambda>price. \<lparr>timestamp = fst price, price = snd price, date = None\<rparr>) prices"

definition chart_try :: "thrown + Response \<Rightarrow> thrown + ChartData list" where
  "chart_try fetched =
     (case fetched of
        Inl err \<Rightarrow> Inl err
      | Inr response \<Rightarrow>
          (case http_check response of
             Inl err \<Rightarrow> Inl err
           | Inr _ \<Rightarrow>
               (case json response of
                  Inl err \<Rightarrow> Inl err
                | Inr Null_body \<Rightarrow> Inl (null_member ''prices'')
                | Inr (Chart_body prices) \<Rightarrow> Inr (format_chart prices)
                | Inr _ \<Rightarrow> Inl (undefined_member ''map''))))"

definition fetchChartData_end :: "thrown + Response \<Rightarrow> state \<Rightarrow> state" where
  "fetchChartData_end fetched s =
     (case chart_try fetched of
        Inr formattedData \<Rightarrow> s\<lparr>chartData := formattedData\<rparr>
      | Inl err \<Rightarrow> s\<lparr>console := console s @ [(''Failed to fetch chart data:'', err)]\<rparr>)"

definition fetchChartData :: "string \<Rightarrow> thrown + Response \<Rightarrow> state \<Rightarrow> state" where
  "fetchChartData tf fetched s = fetchChartData_end fetched (fetchChartData_begin tf s)"

subsection \<open>\<^verbatim>\<open>fetchHistoricalData\<close> (lines 74 to 97)\<close>

text \<open>
  \<open>toLocaleDateString\<close> stands for
  \<^verbatim>\<open>t => new Date(t).toLocaleDateString('en-US', { month: 'short', year: '2-digit' })\<close>,
  which depends on the time zone of the browser; it is an argument.
\<close>

definition format_historical ::
  "(number \<Rightarrow> string) \<Rightarrow> (number \<times> number) list \<Rightarrow> HistoricalData list" where
  "format_historical toLocaleDateString prices =
     map (\<lambda>price. \<lparr>hist_date = toLocaleDateString (fst price),
                    hist_price = js_div (Math_round (js_mul (snd price) (Fin 100))) (Fin 100)\<rparr>)
       prices"

definition downsample :: "'a list \<Rightarrow> 'a list" where
  "downsample formattedData = js_filter (\<lambda>_ idx. idx mod 30 = 0) formattedData"

definition fetchHistoricalData_begin :: "state \<Rightarrow> state" where
  "fetchHistoricalData_begin s =
     s\<lparr>loadingHistory := True, requests := requests s @ [historical_url]\<rparr>"

definition historical_try ::
  "(number \<Rightarrow> string) \<Rightarrow> thrown + Response \<Rightarrow> thrown + HistoricalData list" where
  "historical_try toLocaleDateString fetched =
     (case fetched of
        Inl err \<Rightarrow> Inl err
      | Inr response \<Rightarrow>
          (case http_check response of
             Inl err \<Rightarrow> Inl err
           | Inr _ \<Rightarrow>
               (case json response of
                  Inl err \<Rightarrow> Inl err
                | Inr Null_body \<Rightarrow> Inl (null_member ''prices'')
                | Inr (Chart_body prices) \<Rightarrow>
                    Inr (downsample (format_historical toLocaleDateString prices))
                | Inr _ \<Rightarrow> Inl (undefined_member ''map''))))"

definition fetchHistoricalData_end ::
  "(number \<Rightarrow> string) \<Rightarrow> thrown + Response \<Rightarrow> state \<Rightarrow> state" where
  "fetchHistoricalData_end toLocaleDateString fetched s =
     (case historical_try toLocaleDateString fetched of
        Inr downsampled \<Rightarrow> s\<lparr>historicalData := downsampled, loadingHistory := False\<rparr>
      | Inl err \<Rightarrow>
          s\<lparr>console := console s @ [(''Failed to fetch historical data:'', err)],
            loadingHistory := False\<rparr>)"

definition fetchHistoricalData ::
  "(number \<Rightarrow> string) \<Rightarrow> thrown + Response \<Rightarrow> state \<Rightarrow> state" where
  "fetchHistoricalData toLocaleDateString fetched s =
     fetchHistoricalData_end toLocaleDateString fetched (fetchHistoricalData_begin s)"

section \<open>Derived statistics (lines 122 to 124)\<close>

text \<open>The three values are computed at each render from the state cell \<^verbatim>\<open>chartData\<close> (\<open>series\<close>).\<close>

definition minPrice :: "ChartData list \<Rightarrow> number" where
  "minPrice series =
     (if length series > 0 then Math_min (map price series) else Fin 0)"

definition maxPrice :: "ChartData list \<Rightarrow> number" where
  "maxPrice series =
     (if length series > 0 then Math_max (map price series) else Fin 0)"

definition avgPrice :: "ChartData list \<Rightarrow> number" where
  "avgPrice series =
     (if length series > 0
      then js_div (foldl (\<lambda>sum d. js_add sum (price d)) (Fin 0) series)
             (Fin (of_nat (length series)))
      else Fin 0)"

section \<open>The view of the historical chart (lines 142 and 223 to 261)\<close>

text \<open>
  The historical section sits inside \<^verbatim>\<open>{ethPrice !== null && (...)}\<close>: while
  \<^verbatim>\<open>ethPrice\<close> is \<^verbatim>\<open>null\<close> nothing of it is rendered (\<open>None\<close>). Inside the guard the
  price card comes first and calls \<^verbatim>\<open>ethPrice.toLocaleString\<close> (line 148), which throws
  when \<^verbatim>\<open>ethPrice\<close> is \<^verbatim>\<open>undefined\<close>, so that the render ends there; for every other
  value the historical section shows the loading text, the chart or the failure text.
\<close>

datatype history_view = Loading_history | History_chart "HistoricalData list" | Failed_history

definition render_history :: "state \<Rightarrow> thrown + history_view option" where
  "render_history s =
     (if ethPrice s \<noteq> Null
      then (if ethPrice s = Undefined then Inl (undefined_member ''toLocaleString'')
            else Inr (Some (if loadingHistory s then Loading_history
                            else if length (historicalData s) > 0
                            then History_chart (historicalData s)
                            else Failed_history)))
      else Inr None)"

section \<open>Start-up and what runs beside it\<close>

text \<open>
  The first effect (lines 99 to 116) sets \<^verbatim>\<open>loading\<close> and starts \<^verbatim>\<open>initializeData\<close>,
  which is suspended in one of its three \<^verbatim>\<open>await\<close>s until it is done. A resumption
  gets the settled request of the fetcher it waits for. \<^verbatim>\<open>initializeData\<close> belongs to
  the first render, so its \<^verbatim>\<open>fetchChartData\<close> sees the time frame of that render.
\<close>

datatype init_pc = AwaitQuote | AwaitChart | AwaitHistory | InitDone

definition mount_effect :: "state \<Rightarrow> state \<times> init_pc" where
  "mount_effect s = (fetchEthPrice_begin (s\<lparr>loading := True\<rparr>), AwaitQuote)"

fun initializeData_resume ::
  "(number \<Rightarrow> string) \<Rightarrow> string \<Rightarrow> nat \<Rightarrow> thrown + Response \<Rightarrow> state \<times> init_pc \<Rightarrow> state \<times> init_pc" where
  "initializeData_resume fmt tf now fetched (s, AwaitQuote) =
     (fetchChartData_begin tf (fetchEthPrice_end now fetched s), AwaitChart)"
| "initializeData_resume fmt tf now fetched (s, AwaitChart) =
     (fetchHistoricalData_begin (fetchChartData_end fetched s), AwaitHistory)"
| "initializeData_resume fmt tf now fetched (s, AwaitHistory) =
     ((fetchHistoricalData_end fmt fetched s)\<lparr>loading := False\<rparr>, InitDone)"
| "initializeData_resume fmt tf now fetched (s, InitDone) = (s, InitDone)"

text \<open>
  What else can run while \<^verbatim>\<open>initializeData\<close> is suspended, and at any time later: a
  quote fetch started by the timer or the retry button and its settling, a chart fetch
  started by the second effect (lines 118 to 120) and its settling, and a click on one
  of the three time frame buttons.
\<close>

datatype background =
    Quote_started
  | Quote_settled nat "thrown + Response"
  | Chart_started string
  | Chart_settled "thrown + Response"
  | Clicked_24h
  | Clicked_7d
  | Clicked_30d

fun background_step :: "background \<Rightarrow> state \<Rightarrow> state" where
  "background_step Quote_started s = fetchEthPrice_begin s"
| "background_step (Quote_settled now fetched) s = fetchEthPrice_end now fetched s"
| "background_step (Chart_started tf) s = fetchChartData_begin tf s"
| "background_step (Chart_settled fetched) s = fetchChartData_end fetched s"
| "background_step Clicked_24h s = s\<lparr>timeframe := ''24h''\<rparr>"
| "background_step Clicked_7d s = s\<lparr>timeframe := ''7d''\<rparr>"
| "background_step Clicked_30d s = s\<lparr>timeframe := ''30d''\<rparr>"

definition run_background :: "background list \<Rightarrow> state \<Rightarrow> state" where
  "run_background bs s = fold background_step bs s"

text \<open>The requests that a run of background steps issues.\<close>

fun background_requests :: "background list \<Rightarrow> string list" where
  "background_requests [] = []"
| "background_requests (Quote_started # bs) = quote_url # background_requests bs"
| "background_requests (Chart_started tf # bs) = chart_url (days tf) # background_requests bs"
| "background_requests (_ # bs) = background_requests bs"

text \<open>
  A whole start-up from the state \<open>s0\<close> of the first render: the three requests settle
  as \<open>r1\<close>, \<open>r2\<close>, \<open>r3\<close>, and the background steps \<open>b1\<close>, \<open>b2\<close>, \<open>b3\<close> run while
  \<^verbatim>\<open>initializeData\<close> waits for them. The result lists the configuration after the mount
  effect and after each resumption.
\<close>

definition startup_run ::
  "(number \<Rightarrow> string) \<Rightarrow> nat \<Rightarrow> thrown + Response \<Rightarrow> thrown + Response \<Rightarrow> thrown + Response \<Rightarrow>
   background list \<Rightarrow> background list \<Rightarrow> background list \<Rightarrow> state \<Rightarrow> (state \<times> init_pc) list" where
  "startup_run fmt now r1 r2 r3 b1 b2 b3 s0 =
     (let c1 = mount_effect s0;
          c2 = initializeData_resume fmt (timeframe s0) now r1 (run_background b1 (fst c1), snd c1);
          c3 = initializeData_resume fmt (timeframe s0) now r2 (run_background b2 (fst c2), snd c2);
          c4 = initializeData_resume fmt (timeframe s0) now r3 (run_background b3 (fst c3), snd c3)
      in [c1, c2, c3, c4])"

text \<open>
  The configurations the application can reach: the state cells together with the
  place where \<^verbatim>\<open>initializeData\<close> is suspended.
\<close>

inductive reachable :: "(number \<Rightarrow> string) \<Rightarrow> state \<times> init_pc \<Rightarrow> bool"
  for fmt :: "number \<Rightarrow> string" where
  mounted: "reachable fmt (mount_effect initial_state)"
| resumed: "reachable fmt c \<Longrightarrow>
     reachable fmt (initializeData_resume fmt (timeframe initial_state) now fetched c)"
| background: "reachable fmt (s, pc) \<Longrightarrow> reachable fmt (background_step b s, pc)"

section \<open>Failing fetches\<close>

text \<open>
  The failures of a fetch, in the words of the specification: a network error
  (\<^verbatim>\<open>fetch\<close> rejects), a status outside 200 to 299, and a malformed payload. A quote
  payload is malformed when the body is not JSON or is not an object whose member
  \<^verbatim>\<open>ethereum\<close> has the numbers \<^verbatim>\<open>usd\<close> and \<^verbatim>\<open>usd_24h_change\<close>, as \<^verbatim>\<open>PriceData\<close>
  declares. It is unreadable when the body is not JSON or \<^verbatim>\<open>data.ethereum.usd\<close> cannot be
  read at all: these are the malformed payloads on which the \<^verbatim>\<open>try\<close> block of
  \<^verbatim>\<open>fetchEthPrice\<close> throws. A series payload is malformed when the body is not JSON or has
  no member \<^verbatim>\<open>prices\<close>.
\<close>

definition network_error :: "thrown + Response \<Rightarrow> bool" where
  "network_error fetched = (case fetched of Inl _ \<Rightarrow> True | Inr _ \<Rightarrow> False)"

definition non_2xx :: "thrown + Response \<Rightarrow> bool" where
  "non_2xx fetched = (case fetched of Inl _ \<Rightarrow> False | Inr response \<Rightarrow> \<not> ok response)"

definition declared_PriceData :: "PriceData \<Rightarrow> bool" where
  "declared_PriceData e \<longleftrightarrow> is_number (usd e) \<and> is_number (usd_24h_change e)"

definition malformed_quote :: "thrown + Response \<Rightarrow> bool" where
  "malformed_quote fetched =
     (case fetched of
        Inl _ \<Rightarrow> False
      | Inr response \<Rightarrow>
          ok response
          \<and> (case json response of
                 Inr (Quote_body (Ethereum e)) \<Rightarrow> \<not> declared_PriceData e
               | _ \<Rightarrow> True))"

definition unreadable_quote :: "thrown + Response \<Rightarrow> bool" where
  "unreadable_quote fetched =
     (case fetched of
        Inl _ \<Rightarrow> False
      | Inr response \<Rightarrow>
          ok response
          \<and> (case json response of Inr (Quote_body (Ethereum _)) \<Rightarrow> False | _ \<Rightarrow> True))"

definition malformed_series :: "thrown + Response \<Rightarrow> bool" where
  "malformed_series fetched =
     (case fetched of
        Inl _ \<Rightarrow> False
      | Inr response \<Rightarrow>
          ok response \<and> (case json response of Inr (Chart_body _) \<Rightarrow> False | _ \<Rightarrow> True))"

definition quote_fetch_fails :: "thrown + Response \<Rightarrow> bool" where
  "quote_fetch_fails fetched \<longleftrightarrow>
     network_error fetched \<or> non_2xx fetched \<or> malformed_quote fetched"

definition quote_fetch_throws :: "thrown + Response \<Rightarrow> bool" where
  "quote_fetch_throws fetched \<longleftrightarrow>
     network_error fetched \<or> non_2xx fetched \<or> unreadable_quote fetched"

definition series_fetch_fails :: "thrown + Response \<Rightarrow> bool" where
  "series_fetch_fails fetched \<longleftrightarrow>
     network_error fetched \<or> non_2xx fetched \<or> malformed_series fetched"

text \<open>
  A settled quote request is as declared when the \<^verbatim>\<open>try\<close> block throws on it or the
  \<^verbatim>\<open>PriceData\<close> it stores has two numbers. The configurations reachable as declared are
  those reached when every settled quote request is.
\<close>

definition quote_as_declared :: "thrown + Response \<Rightarrow> bool" where
  "quote_as_declared fetched =
     (case quote_try fetched of Inl _ \<Rightarrow> True | Inr e \<Rightarrow> declared_PriceData e)"

fun background_as_declared :: "background \<Rightarrow> bool" where
  "background_as_declared (Quote_settled now fetched) = quote_as_declared fetched"
| "background_as_declared _ = True"

inductive reachable_declared :: "(number \<Rightarrow> string) \<Rightarrow> state \<times> init_pc \<Rightarrow> bool"
  for fmt :: "number \<Rightarrow> string" where
  mounted: "reachable_declared fmt (mount_effect initial_state)"
| resumed: "reachable_declared fmt (s, pc) \<Longrightarrow> (pc = AwaitQuote \<longrightarrow> quote_as_declared fetched) \<Longrightarrow>
     reachable_declared fmt
       (initializeData_resume fmt (timeframe initial_state) now fetched (s, pc))"
| background: "reachable_declared fmt (s, pc) \<Longrightarrow> background_as_declared b \<Longrightarrow>
     reachable_declared fmt (background_step b s, pc)"

text \<open>
  Two 2xx responses that are malformed and readable: the body \<^verbatim>\<open>{"ethereum":{}}\<close>, and
  the body \<^verbatim>\<open>{"ethereum":{"usd":3000}}\<close>; and the start-up whose quote request settles
  to the second.
\<close>

definition empty_ethereum :: "thrown + Response" where
  "empty_ethereum =
     Inr \<lparr>status = 200,
          json = Inr (Quote_body (Ethereum \<lparr>usd = Undefined, usd_24h_change = Undefined\<rparr>))\<rparr>"

definition change_missing :: "thrown + Response" where
  "change_missing =
     Inr \<lparr>status = 200,
          json = Inr (Quote_body (Ethereum \<lparr>usd = Num (Fin 3000), usd_24h_change = Undefined\<rparr>))\<rparr>"

definition partial_quote_startup :: "state \<times> init_pc" where
  "partial_quote_startup =
     initializeData_resume (\<lambda>t. ''Invalid Date'') ''24h'' 0 change_missing
       (mount_effect initial_state)"

text \<open>
  A response as the quote endpoint sends it (price 3000.5, change -2.25), a response
  with status 429, and a state in which that quote is stored.
\<close>

definition good_quote :: "thrown + Response" where
  "good_quote =
     Inr \<lparr>status = 200,
          json = Inr (Quote_body (Ethereum
                   \<lparr>usd = Num (Fin (6001 / 2)), usd_24h_change = Num (Fin (- 9 / 4))\<rparr>))\<rparr>"

definition too_many_requests :: "thrown + Response" where
  "too_many_requests = Inr \<lparr>status = 429, json = Inr Other_body\<rparr>"

definition quote_stored :: state where
  "quote_stored =
     initial_state\<lparr>ethPrice := Num (Fin (6001 / 2)), priceChange24h := Num (Fin (- 9 / 4)),
       lastUpdate := Some 1700000000000\<rparr>"

text \<open>The start-up of a browser that is off line: each of the three requests is rejected.\<close>

definition failed_to_fetch :: "thrown + Response" where
  "failed_to_fetch = Inl (Error ''Failed to fetch'')"

definition offline_startup :: "state \<times> init_pc" where
  "offline_startup =
     initializeData_resume (\<lambda>t. ''Invalid Date'') ''24h'' 0 failed_to_fetch
       (initializeData_resume (\<lambda>t. ''Invalid Date'') ''24h'' 0 failed_to_fetch
         (initializeData_resume (\<lambda>t. ''Invalid Date'') ''24h'' 0 failed_to_fetch
           (mount_effect initial_state)))"

section \<open>Rounding in the mean\<close>

text \<open>
  A rational is a binary64 value when rounding leaves it as it is. The sums of a list
  are exact from the accumulator \<open>acc\<close> on when no addition of the left-to-right sum
  rounds.
\<close>

definition exact :: "rat \<Rightarrow> bool" where
  "exact x \<longleftrightarrow> round64 x = Fin x"

fun sums_exact :: "rat \<Rightarrow> rat list \<Rightarrow> bool" where
  "sums_exact acc [] = True"
| "sums_exact acc (p # ps) = (exact (acc + p) \<and> sums_exact (acc + p) ps)"

text \<open>
  Two series of equal prices, an hour apart: three points at 2000.1 and five points at
  1999.99, each price the binary64 value that the decimal numeral denotes.
\<close>

definition point :: "rat \<Rightarrow> rat \<Rightarrow> ChartData" where
  "point t p = \<lparr>timestamp = Fin t, price = Fin p, date = None\<rparr>"

definition three_at_2000_1 :: "ChartData list" where
  "three_at_2000_1 =
     [point 1700000000000 (4398266413429555 / 2199023255552),
      point 1700003600000 (4398266413429555 / 2199023255552),
      point 1700007200000 (4398266413429555 / 2199023255552)]"

definition five_at_1999_99 :: "ChartData list" where
  "five_at_1999_99 =
     [point 1700000000000 (8796049041742889 / 4398046511104),
      point 1700003600000 (8796049041742889 / 4398046511104),
      point 1700007200000 (8796049041742889 / 4398046511104),
      point 1700010800000 (8796049041742889 / 4398046511104),
      point 1700014400000 (8796049041742889 / 4398046511104)]"

section \<open>Invariants of the reachable configurations\<close>

text \<open>
  The quote is whole when its three cells are all empty or the price and the 24h change
  are numbers and the time of the update is set. The start-up
  invariant ties the two loading flags and the historical series to the place where
  \<^verbatim>\<open>initializeData\<close> is suspended.
\<close>

definition quote_whole :: "state \<Rightarrow> bool" where
  "quote_whole s \<longleftrightarrow>
     (ethPrice s = Null \<and> priceChange24h s = Null \<and> lastUpdate s = None)
     \<or> (is_number (ethPrice s) \<and> is_number (priceChange24h s) \<and> lastUpdate s \<noteq> None)"

definition startup_inv :: "state \<times> init_pc \<Rightarrow> bool" where
  "startup_inv c \<longleftrightarrow>
     (loading (fst c) \<longleftrightarrow> snd c \<noteq> InitDone)
     \<and> (loadingHistory (fst c) \<longleftrightarrow> snd c = AwaitHistory)
     \<and> (snd c \<noteq> InitDone \<longrightarrow> historicalData (fst c) = [])"

section \<open>Rounding to binary64\<close>

lemma pow2_powi: "pow2 e = 2 powi e"
  by (simp add: pow2_def power_int_def inverse_eq_divide power_one_over)

lemma pow2_pos: "0 < pow2 e"
  by (simp add: pow2_powi)

lemma pow2_add: "pow2 (a + b) = pow2 a * pow2 b"
  by (simp add: pow2_powi power_int_add)

lemma pow2_mono: "a \<le> b \<Longrightarrow> pow2 a \<le> pow2 b"
  by (simp add: pow2_powi power_int_increasing)

lemma pow2_strict_mono: "a < b \<Longrightarrow> pow2 a < pow2 b"
  by (simp add: pow2_powi power_int_strict_increasing)

lemma pow2_nat: "0 \<le> e \<Longrightarrow> pow2 e = 2 ^ nat e"
  by (simp add: pow2_def)

lemma bitlen_rat_bounds:
  assumes "0 < a"
  shows "pow2 (bitlen a - 1) \<le> of_int a" and "of_int a < pow2 (bitlen a)"
proof -
  from bitlen_bounds [OF assms]
  have lo: "2 ^ nat (bitlen a - 1) \<le> a" and hi: "a < 2 ^ nat (bitlen a)"
    by simp_all
  have pos: "1 \<le> bitlen a"
    using assms bitlen_eq_zero_iff [of a] bitlen_nonneg [of a] by linarith
  have "(of_int (2 ^ nat (bitlen a - 1)) :: rat) \<le> of_int a"
    using lo by (simp only: of_int_le_iff)
  then show "pow2 (bitlen a - 1) \<le> of_int a"
    using pos by (simp add: pow2_nat)
  have "(of_int a :: rat) < of_int (2 ^ nat (bitlen a))"
    using hi by (simp only: of_int_less_iff)
  then show "of_int a < pow2 (bitlen a)"
    using pos by (simp add: pow2_nat)
qed

lemma floor_log2_bounds:
  assumes "0 < x"
  shows "pow2 (floor_log2 x) \<le> x \<and> x < pow2 (floor_log2 x + 1)"
proof -
  obtain a b where q: "quotient_of x = (a, b)"
    by (cases "quotient_of x")
  then have b: "0 < b" and x: "x = of_int a / of_int b"
    by (simp_all add: quotient_of_denom_pos quotient_of_div)
  have a: "0 < a"
    using assms b by (simp add: x zero_less_divide_iff)
  define e where "e = bitlen a - bitlen b"
  have upper: "x < pow2 (e + 1)"
  proof -
    have "of_int a < pow2 (bitlen a)"
      by (rule bitlen_rat_bounds [OF a])
    also have "pow2 (bitlen a) = pow2 (e + 1) * pow2 (bitlen b - 1)"
      by (simp add: e_def pow2_add [symmetric])
    also have "\<dots> \<le> pow2 (e + 1) * of_int b"
      using bitlen_rat_bounds(1) [OF b] pow2_pos [of "e + 1"] by simp
    finally show ?thesis
      using b by (simp add: x pos_divide_less_eq)
  qed
  have lower: "pow2 (e - 1) \<le> x"
  proof -
    have "pow2 (e - 1) * of_int b \<le> pow2 (e - 1) * pow2 (bitlen b)"
      using bitlen_rat_bounds(2) [OF b] pow2_pos [of "e - 1"] by simp
    also have "\<dots> = pow2 (bitlen a - 1)"
      by (simp add: e_def pow2_add [symmetric])
    also have "\<dots> \<le> of_int a"
      by (rule bitlen_rat_bounds [OF a])
    finally show ?thesis
      using b by (simp add: x pos_le_divide_eq)
  qed
  have fl: "floor_log2 x = (if pow2 e \<le> x then e else e - 1)"
    by (simp add: floor_log2_def q e_def Let_def)
  show ?thesis
  proof (cases "pow2 e \<le> x")
    case True
    then show ?thesis
      using upper by (simp add: fl)
  next
    case False
    then show ?thesis
      using lower by (simp add: fl)
  qed
qed

lemma floor_log2_unique:
  assumes "pow2 e \<le> x" and "x < pow2 (e + 1)"
  shows "floor_log2 x = e"
proof -
  have "0 < x"
    using assms(1) pow2_pos [of e] by linarith
  from floor_log2_bounds [OF this]
  have lo: "pow2 (floor_log2 x) \<le> x" and hi: "x < pow2 (floor_log2 x + 1)"
    by simp_all
  have "pow2 e < pow2 (floor_log2 x + 1)"
    using assms(1) hi by linarith
  then have "e < floor_log2 x + 1"
    using pow2_mono [of "floor_log2 x + 1" e] by (cases "e < floor_log2 x + 1") auto
  moreover have "pow2 (floor_log2 x) < pow2 (e + 1)"
    using lo assms(2) by linarith
  then have "floor_log2 x < e + 1"
    using pow2_mono [of "e + 1" "floor_log2 x"] by (cases "floor_log2 x < e + 1") auto
  ultimately show ?thesis
    by linarith
qed

lemma round64_binade:
  assumes "pow2 e \<le> \<bar>x\<bar>" and "\<bar>x\<bar> < pow2 (e + 1)" and "- 1022 \<le> e"
    and "round_half_even (x / pow2 (e - 52)) = m"
    and "\<bar>of_int m * pow2 (e - 52)\<bar> < pow2 1024"
  shows "round64 x = Fin (of_int m * pow2 (e - 52))"
proof -
  have "x \<noteq> 0"
    using assms(1) pow2_pos [of e] by auto
  moreover have "max (floor_log2 \<bar>x\<bar>) (- 1022) = e"
    using floor_log2_unique [OF assms(1,2)] assms(3) by simp
  ultimately show ?thesis
    using assms(4,5) by (simp add: round64_def Let_def abs_less_iff)
qed

lemma min_loop_Fin:
  "min_loop (Fin a) (map Fin ps) = Fin (fold min ps a)"
proof (induction ps arbitrary: a)
  case Nil
  show ?case by simp
next
  case (Cons p ps)
  show ?case
  proof (cases "p < a")
    case True
    then show ?thesis
      using Cons.IH [of p] by (simp add: min_def)
  next
    case False
    then show ?thesis
      using Cons.IH [of a] by (simp add: min_def)
  qed
qed

lemma max_loop_Fin:
  "max_loop (Fin a) (map Fin ps) = Fin (fold max ps a)"
proof (induction ps arbitrary: a)
  case Nil
  show ?case by simp
next
  case (Cons p ps)
  show ?case
  proof (cases "a < p")
    case True
    then show ?thesis
      using Cons.IH [of p] by (simp add: max_def)
  next
    case False
    then show ?thesis
      using Cons.IH [of a] by (simp add: max_def)
  qed
qed

lemma Math_min_Fin:
  "ps \<noteq> [] \<Longrightarrow> Math_min (map Fin ps) = Fin (Min (set ps))"
  by (cases ps) (simp_all add: Math_min_def min_loop_Fin Min.set_eq_fold del: set_simps)

lemma Math_max_Fin:
  "ps \<noteq> [] \<Longrightarrow> Math_max (map Fin ps) = Fin (Max (set ps))"
  by (cases ps) (simp_all add: Math_max_def max_loop_Fin Max.set_eq_fold del: set_simps)

lemma foldl_js_add_exact:
  "sums_exact acc ps \<Longrightarrow> foldl js_add (Fin acc) (map Fin ps) = Fin (acc + sum_list ps)"
proof (induction ps arbitrary: acc)
  case Nil
  show ?case by simp
next
  case (Cons p ps)
  then show ?case
    by (simp add: exact_def add.assoc)
qed

lemma foldl_price:
  "foldl (\<lambda>sum d. js_add sum (price d)) acc series = foldl js_add acc (map price series)"
  by (induction series arbitrary: acc) simp_all

lemma sum_list_bounds:
  fixes ps :: "rat list"
  assumes "ps \<noteq> []"
  shows "Min (set ps) * of_nat (length ps) \<le> sum_list ps"
    and "sum_list ps \<le> Max (set ps) * of_nat (length ps)"
proof -
  have "\<forall>p \<in> set ps. Min (set ps) \<le> p"
    by simp
  then have "sum_list (map (\<lambda>_. Min (set ps)) ps) \<le> sum_list (map (\<lambda>p. p) ps)"
    by (intro sum_list_mono) simp
  then show "Min (set ps) * of_nat (length ps) \<le> sum_list ps"
    by (simp add: sum_list_triv mult.commute)
  have "\<forall>p \<in> set ps. p \<le> Max (set ps)"
    by simp
  then have "sum_list (map (\<lambda>p. p) ps) \<le> sum_list (map (\<lambda>_. Max (set ps)) ps)"
    by (intro sum_list_mono) simp
  then show "sum_list ps \<le> Max (set ps) * of_nat (length ps)"
    by (simp add: sum_list_triv mult.commute)
qed

lemma mean_bounds:
  fixes ps :: "rat list"
  assumes "ps \<noteq> []"
  shows "Min (set ps) \<le> sum_list ps / of_nat (length ps)"
    and "sum_list ps / of_nat (length ps) \<le> Max (set ps)"
  using sum_list_bounds [OF assms] assms
  by (simp_all add: pos_le_divide_eq pos_divide_le_eq)


lemma floor_rat_numeral:
  "\<lfloor>(numeral a :: rat) / numeral b\<rfloor> = numeral a div numeral b"
  using floor_divide_of_int_eq [of "numeral a" "numeral b", where ?'a = rat] by simp

section \<open>The derived statistics\<close>

lemma three_add1: "js_add (Fin 0) (Fin (4398266413429555 / 2199023255552)) = Fin (4398266413429555 / 2199023255552)"
  unfolding js_add.simps
  by (rule round64_binade [where e = "10" and m = 8796532826859110, THEN trans])
    (simp_all add: pow2_def round_half_even_def Let_def floor_rat_numeral)

lemma three_add2: "js_add (Fin (4398266413429555 / 2199023255552)) (Fin (4398266413429555 / 2199023255552)) = Fin (4398266413429555 / 1099511627776)"
  unfolding js_add.simps
  by (rule round64_binade [where e = "11" and m = 8796532826859110, THEN trans])
    (simp_all add: pow2_def round_half_even_def Let_def floor_rat_numeral)

lemma three_add3: "js_add (Fin (4398266413429555 / 1099511627776)) (Fin (4398266413429555 / 2199023255552)) = Fin (1649349905036083 / 274877906944)"
  unfolding js_add.simps
  by (rule round64_binade [where e = "12" and m = 6597399620144332, THEN trans])
    (simp_all add: pow2_def round_half_even_def Let_def floor_rat_numeral)

lemma three_div: "js_div (Fin (1649349905036083 / 274877906944)) (Fin 3) = Fin (8796532826859109 / 4398046511104)"
  unfolding js_div.simps
  by (simp, rule round64_binade [where e = "10" and m = 8796532826859109, THEN trans])
    (simp_all add: pow2_def round_half_even_def Let_def floor_rat_numeral)

lemma five_add1: "js_add (Fin 0) (Fin (8796049041742889 / 4398046511104)) = Fin (8796049041742889 / 4398046511104)"
  unfolding js_add.simps
  by (rule round64_binade [where e = "10" and m = 8796049041742889, THEN trans])
    (simp_all add: pow2_def round_half_even_def Let_def floor_rat_numeral)

lemma five_add2: "js_add (Fin (8796049041742889 / 4398046511104)) (Fin (8796049041742889 / 4398046511104)) = Fin (8796049041742889 / 2199023255552)"
  unfolding js_add.simps
  by (rule round64_binade [where e = "11" and m = 8796049041742889, THEN trans])
    (simp_all add: pow2_def round_half_even_def Let_def floor_rat_numeral)

lemma five_add3: "js_add (Fin (8796049041742889 / 2199023255552)) (Fin (8796049041742889 / 4398046511104)) = Fin (6597036781307167 / 1099511627776)"
  unfolding js_add.simps
  by (rule round64_binade [where e = "12" and m = 6597036781307167, THEN trans])
    (simp_all add: pow2_def round_half_even_def Let_def floor_rat_numeral)

lemma five_add4: "js_add (Fin (6597036781307167 / 1099511627776)) (Fin (8796049041742889 / 4398046511104)) = Fin (8796049041742889 / 1099511627776)"
  unfolding js_add.simps
  by (rule round64_binade [where e = "12" and m = 8796049041742889, THEN trans])
    (simp_all add: pow2_def round_half_even_def Let_def floor_rat_numeral)

lemma five_add5: "js_add (Fin (8796049041742889 / 1099511627776)) (Fin (8796049041742889 / 4398046511104)) = Fin (2748765325544653 / 274877906944)"
  unfolding js_add.simps
  by (rule round64_binade [where e = "13" and m = 5497530651089306, THEN trans])
    (simp_all add: pow2_def round_half_even_def Let_def floor_rat_numeral)

lemma five_div: "js_div (Fin (2748765325544653 / 274877906944)) (Fin 5) = Fin (4398024520871445 / 2199023255552)"
  unfolding js_div.simps
  by (simp, rule round64_binade [where e = "10" and m = 8796049041742890, THEN trans])
    (simp_all add: pow2_def round_half_even_def Let_def floor_rat_numeral)

lemma exact_100: "exact 100"
  unfolding exact_def
  by (rule round64_binade [where e = "6" and m = 7036874417766400, THEN trans])
    (simp_all add: pow2_def round_half_even_def Let_def floor_rat_numeral)

lemma exact_210: "exact 210"
  unfolding exact_def
  by (rule round64_binade [where e = "7" and m = 7388718138654720, THEN trans])
    (simp_all add: pow2_def round_half_even_def Let_def floor_rat_numeral)

lemma exact_105: "exact 105"
  unfolding exact_def
  by (rule round64_binade [where e = "6" and m = 7388718138654720, THEN trans])
    (simp_all add: pow2_def round_half_even_def Let_def floor_rat_numeral)

lemma exact_1999_5: "exact (3999 / 2)"
  unfolding exact_def
  by (rule round64_binade [where e = "10" and m = 8793893998952448, THEN trans])
    (simp_all add: pow2_def round_half_even_def Let_def floor_rat_numeral)

lemma exact_4000: "exact 4000"
  unfolding exact_def
  by (rule round64_binade [where e = "11" and m = 8796093022208000, THEN trans])
    (simp_all add: pow2_def round_half_even_def Let_def floor_rat_numeral)

lemma exact_2000: "exact 2000"
  unfolding exact_def
  by (rule round64_binade [where e = "10" and m = 8796093022208000, THEN trans])
    (simp_all add: pow2_def round_half_even_def Let_def floor_rat_numeral)


lemma stats_finite:
  assumes "series \<noteq> []" and "map price series = map Fin ps"
  shows "minPrice series = Fin (Min (set ps))"
    and "maxPrice series = Fin (Max (set ps))"
    and "avgPrice series = js_div (foldl js_add (Fin 0) (map Fin ps)) (Fin (of_nat (length ps)))"
proof -
  have ps: "ps \<noteq> []"
    using assms by auto
  have len: "length series = length ps"
    using assms(2) by (metis length_map)
  show "minPrice series = Fin (Min (set ps))"
    using assms(1) by (simp add: minPrice_def assms(2) Math_min_Fin [OF ps])
  show "maxPrice series = Fin (Max (set ps))"
    using assms(1) by (simp add: maxPrice_def assms(2) Math_max_Fin [OF ps])
  show "avgPrice series = js_div (foldl js_add (Fin 0) (map Fin ps)) (Fin (of_nat (length ps)))"
    using ps by (simp add: avgPrice_def foldl_price assms(2) len)
qed

lemma avgPrice_exact:
  assumes "series \<noteq> []" and "map price series = map Fin ps"
    and "sums_exact 0 ps" and "exact (sum_list ps / of_nat (length ps))"
  shows "avgPrice series = Fin (sum_list ps / of_nat (length ps))"
proof -
  have ps: "ps \<noteq> []"
    using assms by auto
  have "avgPrice series = js_div (Fin (sum_list ps)) (Fin (of_nat (length ps)))"
    using stats_finite(3) [OF assms(1,2)] foldl_js_add_exact [OF assms(3)] by simp
  also have "\<dots> = round64 (sum_list ps / of_nat (length ps))"
    using ps by simp
  finally show ?thesis
    using assms(4) by (simp add: exact_def)
qed

text \<open>
  C1, as the code has it. For the empty series the three statistics are zero. For a
  non-empty series whose prices are the finite numbers \<open>ps\<close>, \<^verbatim>\<open>minPrice\<close> is the least
  and \<^verbatim>\<open>maxPrice\<close> the greatest of them, and \<^verbatim>\<open>avgPrice\<close> is their left-to-right
  binary64 sum divided by their number. That is the arithmetic average whenever neither
  an addition nor the division rounds.
\<close>

theorem derived_statistics:
  "minPrice [] = Fin 0 \<and> maxPrice [] = Fin 0 \<and> avgPrice [] = Fin 0
   \<and> (series \<noteq> [] \<and> map price series = map Fin ps \<longrightarrow>
        minPrice series = Fin (Min (set ps))
        \<and> maxPrice series = Fin (Max (set ps))
        \<and> avgPrice series = js_div (foldl js_add (Fin 0) (map Fin ps)) (Fin (of_nat (length ps)))
        \<and> (sums_exact 0 ps \<and> exact (sum_list ps / of_nat (length ps)) \<longrightarrow>
             avgPrice series = Fin (sum_list ps / of_nat (length ps))))"
  using stats_finite [of series ps] avgPrice_exact [of series ps]
  by (simp add: minPrice_def maxPrice_def avgPrice_def)

theorem derived_statistics_witness:
  "[point 1700000000000 100, point 1700003600000 110] \<noteq> []
   \<and> map price [point 1700000000000 100, point 1700003600000 110] = map Fin [100, 110]
   \<and> sums_exact 0 [100, 110] \<and> exact (sum_list [100, 110] / of_nat (length [100 :: rat, 110]))
   \<and> minPrice [point 1700000000000 100, point 1700003600000 110] = Fin 100
   \<and> maxPrice [point 1700000000000 100, point 1700003600000 110] = Fin 110
   \<and> avgPrice [point 1700000000000 100, point 1700003600000 110] = Fin 105"
proof -
  have m: "map price [point 1700000000000 100, point 1700003600000 110] = map Fin [100, 110]"
    by (simp add: point_def)
  have s: "sums_exact 0 [100, 110]"
    using exact_100 exact_210 by simp
  have a: "exact (sum_list [100, 110] / of_nat (length [100 :: rat, 110]))"
    using exact_105 by simp
  have n: "[point 1700000000000 100, point 1700003600000 110] \<noteq> []"
    by simp
  from derived_statistics [of "[point 1700000000000 100, point 1700003600000 110]" "[100, 110]"] n m s a
  have "minPrice [point 1700000000000 100, point 1700003600000 110] = Fin (Min (set [100, 110]))"
    and "maxPrice [point 1700000000000 100, point 1700003600000 110] = Fin (Max (set [100, 110]))"
    and "avgPrice [point 1700000000000 100, point 1700003600000 110]
          = Fin (sum_list [100, 110] / of_nat (length [100 :: rat, 110]))"
    by blast+
  then have "minPrice [point 1700000000000 100, point 1700003600000 110] = Fin 100"
    and "maxPrice [point 1700000000000 100, point 1700003600000 110] = Fin 110"
    and "avgPrice [point 1700000000000 100, point 1700003600000 110] = Fin 105"
    by simp_all
  with n m s a show ?thesis
    by blast
qed

text \<open>
  C1 as stated makes the mean the arithmetic average of the prices. Five prices of
  1999.99 have the average 1999.99, which is a binary64 value; the code computes
  1999.9900000000002.
\<close>

theorem mean_rounding_counterexample:
  "map price five_at_1999_99 = map Fin (replicate 5 (8796049041742889 / 4398046511104))
   \<and> sum_list (replicate 5 (8796049041742889 / 4398046511104 :: rat)) / 5
       = 8796049041742889 / 4398046511104
   \<and> avgPrice five_at_1999_99 = Fin (4398024520871445 / 2199023255552)
   \<and> avgPrice five_at_1999_99 \<noteq> Fin (8796049041742889 / 4398046511104)"
proof -
  have m: "map price five_at_1999_99 = map Fin (replicate 5 (8796049041742889 / 4398046511104))"
    by (simp add: five_at_1999_99_def point_def numeral_eq_Suc)
  have e: "sum_list (replicate 5 (8796049041742889 / 4398046511104 :: rat)) / 5
       = 8796049041742889 / 4398046511104"
    by (simp add: sum_list_replicate)
  have "avgPrice five_at_1999_99 =
      js_div (js_add (js_add (js_add (js_add (js_add (Fin 0)
        (Fin (8796049041742889 / 4398046511104))) (Fin (8796049041742889 / 4398046511104)))
        (Fin (8796049041742889 / 4398046511104))) (Fin (8796049041742889 / 4398046511104)))
        (Fin (8796049041742889 / 4398046511104))) (Fin 5)"
    by (simp add: avgPrice_def five_at_1999_99_def point_def)
  then have a: "avgPrice five_at_1999_99 = Fin (4398024520871445 / 2199023255552)"
    by (simp only: five_add1 five_add2 five_add3 five_add4 five_add5 five_div)
  from m e a show ?thesis
    by simp
qed

text \<open>
  C5, as the code has it. For a non-empty series of finite prices, \<^verbatim>\<open>minPrice\<close> and
  \<^verbatim>\<open>maxPrice\<close> are \<^verbatim>\<open>Math.min\<close> and \<^verbatim>\<open>Math.max\<close> of the prices, every price lies
  between them, and so does their exact arithmetic average; \<^verbatim>\<open>avgPrice\<close> lies between
  them whenever neither an addition of the sum nor the division rounds.
\<close>

theorem stats_ordering:
  assumes "series \<noteq> []" and "map price series = map Fin ps"
  shows "minPrice series = Math_min (map price series)
    \<and> maxPrice series = Math_max (map price series)
    \<and> (\<forall>d \<in> set series. js_le (minPrice series) (price d) \<and> js_le (price d) (maxPrice series))
    \<and> js_le (minPrice series) (maxPrice series)
    \<and> js_le (minPrice series) (Fin (sum_list ps / of_nat (length ps)))
    \<and> js_le (Fin (sum_list ps / of_nat (length ps))) (maxPrice series)
    \<and> (sums_exact 0 ps \<and> exact (sum_list ps / of_nat (length ps)) \<longrightarrow>
         js_le (minPrice series) (avgPrice series) \<and> js_le (avgPrice series) (maxPrice series))"
proof -
  have ps: "ps \<noteq> []"
    using assms by auto
  note mn = stats_finite(1) [OF assms] and mx = stats_finite(2) [OF assms]
  have le: "js_le (Fin a) (Fin b) \<longleftrightarrow> a \<le> b" for a b
    by (auto simp: js_le_def)
  have "js_le (minPrice series) (price d) \<and> js_le (price d) (maxPrice series)"
    if "d \<in> set series" for d
  proof -
    from that have "price d \<in> set (map Fin ps)"
      using assms(2) by (metis imageI set_map)
    then obtain p where "p \<in> set ps" and "price d = Fin p"
      by auto
    then show ?thesis
      by (simp add: mn mx le)
  qed
  moreover have "js_le (minPrice series) (maxPrice series)"
    using ps by (simp add: mn mx le)
  moreover have "js_le (minPrice series) (Fin (sum_list ps / of_nat (length ps)))
      \<and> js_le (Fin (sum_list ps / of_nat (length ps))) (maxPrice series)"
    using mean_bounds [OF ps] by (simp add: mn mx le)
  moreover have "js_le (minPrice series) (avgPrice series) \<and> js_le (avgPrice series) (maxPrice series)"
    if "sums_exact 0 ps" and "exact (sum_list ps / of_nat (length ps))"
    using avgPrice_exact [OF assms that] mean_bounds [OF ps] by (simp add: mn mx le)
  ultimately show ?thesis
    using assms(1) by (simp add: minPrice_def maxPrice_def)
qed

theorem stats_ordering_witness:
  "[point 1700000000000 (3999 / 2), point 1700003600000 (4001 / 2)] \<noteq> []
   \<and> map price [point 1700000000000 (3999 / 2), point 1700003600000 (4001 / 2)]
       = map Fin [3999 / 2, 4001 / 2]
   \<and> sums_exact 0 [3999 / 2, 4001 / 2]
   \<and> exact (sum_list [3999 / 2, 4001 / 2] / of_nat (length [3999 / 2 :: rat, 4001 / 2]))
   \<and> js_le (minPrice [point 1700000000000 (3999 / 2), point 1700003600000 (4001 / 2)])
        (avgPrice [point 1700000000000 (3999 / 2), point 1700003600000 (4001 / 2)])
   \<and> js_le (avgPrice [point 1700000000000 (3999 / 2), point 1700003600000 (4001 / 2)])
        (maxPrice [point 1700000000000 (3999 / 2), point 1700003600000 (4001 / 2)])"
proof -
  have n: "[point 1700000000000 (3999 / 2), point 1700003600000 (4001 / 2)] \<noteq> []"
    by simp
  have m: "map price [point 1700000000000 (3999 / 2), point 1700003600000 (4001 / 2)]
       = map Fin [3999 / 2, 4001 / 2]"
    by (simp add: point_def)
  have s: "sums_exact 0 [3999 / 2, 4001 / 2]"
    using exact_1999_5 exact_4000 by simp
  have a: "exact (sum_list [3999 / 2, 4001 / 2] / of_nat (length [3999 / 2 :: rat, 4001 / 2]))"
    using exact_2000 by simp
  from stats_ordering [OF n m] s a n m show ?thesis
    by blast
qed

text \<open>
  C5 as stated puts the mean between the minimum and the maximum of every non-empty
  series. Three prices of 2000.1 have the computed mean 2000.0999999999997, below the
  least price.
\<close>

theorem mean_below_min_counterexample:
  "minPrice three_at_2000_1 = Fin (4398266413429555 / 2199023255552)
   \<and> avgPrice three_at_2000_1 = Fin (8796532826859109 / 4398046511104)
   \<and> js_lt (avgPrice three_at_2000_1) (minPrice three_at_2000_1)
   \<and> \<not> js_le (minPrice three_at_2000_1) (avgPrice three_at_2000_1)"
proof -
  have mn: "minPrice three_at_2000_1 = Fin (4398266413429555 / 2199023255552)"
    by (simp add: minPrice_def three_at_2000_1_def point_def Math_min_def)
  have "avgPrice three_at_2000_1 =
      js_div (js_add (js_add (js_add (Fin 0)
        (Fin (4398266413429555 / 2199023255552))) (Fin (4398266413429555 / 2199023255552)))
        (Fin (4398266413429555 / 2199023255552))) (Fin 3)"
    by (simp add: avgPrice_def three_at_2000_1_def point_def)
  then have a: "avgPrice three_at_2000_1 = Fin (8796532826859109 / 4398046511104)"
    by (simp only: three_add1 three_add2 three_add3 three_div)
  show ?thesis
    by (simp add: mn a js_le_def)
qed

section \<open>Down-sampling the historical series\<close>

lemma filter_idx_nth:
  "filter_idx f i xs = map (\<lambda>j. xs ! j) (filter (\<lambda>j. f (xs ! j) (i + j)) [0..<length xs])"
proof (induction xs arbitrary: i)
  case Nil
  show ?case by simp
next
  case (Cons x xs)
  have split: "[0..<length (x # xs)] = 0 # map Suc [0..<length xs]"
    by (simp add: upt_conv_Cons map_Suc_upt del: upt_Suc)
  show ?case
    unfolding split using Cons.IH [of "Suc i"]
    by (simp add: filter_map comp_def)
qed

lemma stride_upt:
  "filter (\<lambda>j. j mod 30 = 0) [0..<n] = map (\<lambda>k. 30 * k) [0..<(n + 29) div 30]"
proof (induction n)
  case 0
  show ?case by simp
next
  case (Suc n)
  define q r where "q = n div 30" and "r = n mod 30"
  have n: "n = 30 * q + r" and r: "r < 30"
    by (simp_all add: q_def r_def)
  show ?case
  proof (cases "r = 0")
    case True
    have old: "(n + 29) div 30 = q"
      by (rule div_nat_eqI) (use n True in simp_all)
    have new: "(Suc n + 29) div 30 = Suc q"
      by (rule div_nat_eqI) (use n True in simp_all)
    have "filter (\<lambda>j. j mod 30 = 0) [0..<Suc n] = filter (\<lambda>j. j mod 30 = 0) [0..<n] @ [n]"
      using True by (simp add: r_def)
    also have "\<dots> = map (\<lambda>k. 30 * k) [0..<q] @ [30 * q]"
    proof -
      have "[n] = [30 * q]"
        using n True by simp
      then show ?thesis
        by (simp only: Suc.IH old)
    qed
    also have "\<dots> = map (\<lambda>k. 30 * k) [0..<Suc q]"
      by simp
    finally show ?thesis
      by (simp only: new)
  next
    case False
    have old: "(n + 29) div 30 = Suc q"
      by (rule div_nat_eqI) (use n r False in simp_all)
    have new: "(Suc n + 29) div 30 = Suc q"
      by (rule div_nat_eqI) (use n r False in simp_all)
    have "filter (\<lambda>j. j mod 30 = 0) [0..<Suc n] = filter (\<lambda>j. j mod 30 = 0) [0..<n]"
      using False by (simp add: r_def)
    then show ?thesis
      by (simp only: Suc.IH old new)
  qed
qed

lemma ceiling_div_30: "nat \<lceil>real n / 30\<rceil> = (n + 29) div 30"
proof -
  have "\<lceil>real n / 30\<rceil> = int ((n + 29) div 30)"
  proof (rule ceiling_unique)
    have "real n \<le> 30 * real ((n + 29) div 30)"
    proof -
      have "n \<le> 30 * ((n + 29) div 30)" by presburger
      then show ?thesis by (metis of_nat_le_iff of_nat_mult of_nat_numeral)
    qed
    then show "real n / 30 \<le> of_int (int ((n + 29) div 30))" by simp
    have "30 * ((n + 29) div 30) < n + 30" by presburger
    then have "30 * real ((n + 29) div 30) < real n + 30"
      by (metis of_nat_less_iff of_nat_mult of_nat_numeral of_nat_add)
    then show "of_int (int ((n + 29) div 30)) - 1 < real n / 30" by simp
  qed
  then show ?thesis by simp
qed

lemma downsample_nth:
  "downsample xs = map (\<lambda>k. xs ! (30 * k)) [0..<(length xs + 29) div 30]"
  by (simp add: downsample_def js_filter_def filter_idx_nth stride_upt comp_def)

lemma stride_in_range:
  "k < (n + 29) div 30 \<Longrightarrow> 30 * k < n" for k n :: nat
proof -
  assume "k < (n + 29) div 30"
  then have "Suc k \<le> (n + 29) div 30"
    by simp
  then have "Suc k * 30 \<le> n + 29"
    by (simp only: less_eq_div_iff_mult_less_eq zero_less_numeral)
  then show ?thesis
    by simp
qed

lemma historical_success:
  assumes "ok response" and "json response = Inr (Chart_body prices)"
  shows "historicalData (fetchHistoricalData fmt (Inr response) s)
       = downsample (format_historical fmt prices)"
  using assms
  by (simp add: fetchHistoricalData_def fetchHistoricalData_end_def historical_try_def
      http_check_def)

text \<open>
  C2. Down-sampling a series of length \<open>N\<close> keeps \<open>\<lceil>N / 30\<rceil>\<close> points, namely the
  elements at the indices 0, 30, 60, \<dots> (all of them inside the series) in their
  order. A successful historical fetch stores the down-sampled formatted series; for a
  raw response of 3650 pairs these are 122 points.
\<close>

theorem downsample_stride_30:
  "length (downsample xs) = nat \<lceil>real (length xs) / 30\<rceil>
   \<and> downsample xs = map (\<lambda>k. xs ! (30 * k)) [0..<nat \<lceil>real (length xs) / 30\<rceil>]
   \<and> (\<forall>k < nat \<lceil>real (length xs) / 30\<rceil>. 30 * k < length xs)
   \<and> (ok response \<and> json response = Inr (Chart_body prices) \<longrightarrow>
        historicalData (fetchHistoricalData fmt (Inr response) s)
          = downsample (format_historical fmt prices)
        \<and> (length prices = 3650 \<longrightarrow>
             length (historicalData (fetchHistoricalData fmt (Inr response) s)) = 122))"
proof -
  have "length (downsample (format_historical fmt prices)) = 122" if "length prices = 3650"
    using that by (simp add: downsample_nth format_historical_def)
  then show ?thesis
    by (simp add: ceiling_div_30 downsample_nth stride_in_range historical_success)
qed

theorem downsample_stride_30_witness:
  "ok \<lparr>status = 200, json = Inr (Chart_body (replicate 3650 (Fin 1700000000000, Fin 2000)))\<rparr>
   \<and> length (replicate 3650 (Fin 1700000000000, Fin 2000)) = 3650
   \<and> length (historicalData (fetchHistoricalData (\<lambda>t. ''Nov 23'')
        (Inr \<lparr>status = 200, json = Inr (Chart_body (replicate 3650 (Fin 1700000000000, Fin 2000)))\<rparr>)
        initial_state)) = 122"
proof -
  have o: "ok \<lparr>status = 200, json = Inr (Chart_body (replicate 3650 (Fin 1700000000000, Fin 2000)))\<rparr>"
    by (simp add: ok_def)
  have j: "json \<lparr>status = 200, json = Inr (Chart_body (replicate 3650 (Fin 1700000000000, Fin 2000)))\<rparr>
      = Inr (Chart_body (replicate 3650 (Fin 1700000000000, Fin 2000)))"
    by simp
  have h: "length (replicate 3650 (Fin 1700000000000, Fin 2000)) = 3650"
    by (rule length_replicate)
  from downsample_stride_30 [of "[] :: nat list"
      "\<lparr>status = 200, json = Inr (Chart_body (replicate 3650 (Fin 1700000000000, Fin 2000)))\<rparr>"
      "replicate 3650 (Fin 1700000000000, Fin 2000)" "\<lambda>t. ''Nov 23''" initial_state]
  have "length (historicalData (fetchHistoricalData (\<lambda>t. ''Nov 23'')
        (Inr \<lparr>status = 200, json = Inr (Chart_body (replicate 3650 (Fin 1700000000000, Fin 2000)))\<rparr>)
        initial_state)) = 122"
    using o j h by blast
  with o h show ?thesis
    by blast
qed

section \<open>Failing and successful fetches\<close>

lemma quote_try_throws:
  "quote_fetch_throws fetched \<longleftrightarrow> (\<exists>err. quote_try fetched = Inl err)"
  by (auto simp: quote_fetch_throws_def network_error_def non_2xx_def unreadable_quote_def
      quote_try_def http_check_def split: sum.splits body.splits ethereum.splits)

lemma quote_fails_not_throws:
  assumes "quote_fetch_fails fetched" and "\<not> quote_fetch_throws fetched"
  shows "\<exists>response e. fetched = Inr response \<and> json response = Inr (Quote_body (Ethereum e))
    \<and> \<not> declared_PriceData e \<and> quote_try fetched = Inr e"
  using assms
  by (auto simp: quote_fetch_fails_def quote_fetch_throws_def network_error_def non_2xx_def
      unreadable_quote_def malformed_quote_def quote_try_def http_check_def
      split: sum.splits body.splits ethereum.splits)

lemma chart_try_fails:
  "series_fetch_fails fetched \<longleftrightarrow> (\<exists>err. chart_try fetched = Inl err)"
  by (auto simp: series_fetch_fails_def network_error_def non_2xx_def malformed_series_def
      chart_try_def http_check_def split: sum.splits body.splits)

lemma historical_try_fails:
  "series_fetch_fails fetched \<longleftrightarrow> (\<exists>err. historical_try fmt fetched = Inl err)"
  by (auto simp: series_fetch_fails_def network_error_def non_2xx_def malformed_series_def
      historical_try_def http_check_def split: sum.splits body.splits)

text \<open>
  C4, as the code has it. A quote fetch on which the \<^verbatim>\<open>try\<close> block throws (network
  error, status outside 200 to 299, or an unreadable payload) leaves the stored price
  and 24h change as they were, sets an error message that is not empty and contains the
  word \<^verbatim>\<open>Retrying\<close>, and writes one line to the console. On a malformed payload that is
  readable nothing throws: the fetch stores what the two members read as, clears the
  error message and writes nothing to the console.
\<close>

theorem quote_fetch_failure:
  "(quote_fetch_throws fetched \<longrightarrow>
      ethPrice (fetchEthPrice now fetched s) = ethPrice s
      \<and> priceChange24h (fetchEthPrice now fetched s) = priceChange24h s
      \<and> (\<exists>msg. error (fetchEthPrice now fetched s) = Some msg \<and> msg \<noteq> []
            \<and> sublist ''Retrying'' msg)
      \<and> (\<exists>err. console (fetchEthPrice now fetched s) = console s @ [(''Fetch error:'', err)]))
   \<and> (quote_fetch_fails fetched \<and> \<not> quote_fetch_throws fetched \<longrightarrow>
      (\<exists>response e. fetched = Inr response \<and> json response = Inr (Quote_body (Ethereum e))
         \<and> \<not> declared_PriceData e
         \<and> ethPrice (fetchEthPrice now fetched s) = usd e
         \<and> priceChange24h (fetchEthPrice now fetched s) = usd_24h_change e
         \<and> error (fetchEthPrice now fetched s) = None
         \<and> console (fetchEthPrice now fetched s) = console s))"
proof (intro conjI impI)
  assume "quote_fetch_throws fetched"
  then obtain err where err: "quote_try fetched = Inl err"
    by (auto simp: quote_try_throws)
  define errorMsg where
    "errorMsg = (case err of Error message \<Rightarrow> message | NonError \<Rightarrow> ''Failed to fetch ETH price'')"
  have s': "fetchEthPrice now fetched s =
      s\<lparr>requests := requests s @ [quote_url],
        error := Some (''Error: '' @ errorMsg @ ''. Retrying...''),
        console := console s @ [(''Fetch error:'', err)]\<rparr>"
    by (simp add: fetchEthPrice_def fetchEthPrice_end_def fetchEthPrice_begin_def err errorMsg_def)
  have "''Error: '' @ errorMsg @ ''. Retrying...'' = (''Error: '' @ errorMsg @ ''. '') @ ''Retrying'' @ ''...''"
    by simp
  then have sub: "sublist ''Retrying'' (''Error: '' @ errorMsg @ ''. Retrying...'')"
    unfolding sublist_def by blast
  show "ethPrice (fetchEthPrice now fetched s) = ethPrice s"
    by (simp add: s')
  show "priceChange24h (fetchEthPrice now fetched s) = priceChange24h s"
    by (simp add: s')
  show "\<exists>msg. error (fetchEthPrice now fetched s) = Some msg \<and> msg \<noteq> [] \<and> sublist ''Retrying'' msg"
    using sub by (simp add: s')
  show "\<exists>err. console (fetchEthPrice now fetched s) = console s @ [(''Fetch error:'', err)]"
    by (simp add: s')
next
  assume "quote_fetch_fails fetched \<and> \<not> quote_fetch_throws fetched"
  then obtain response e where r: "fetched = Inr response"
      "json response = Inr (Quote_body (Ethereum e))" "\<not> declared_PriceData e"
      "quote_try fetched = Inr e"
    using quote_fails_not_throws [of fetched] by blast
  have "fetchEthPrice now fetched s =
      s\<lparr>requests := requests s @ [quote_url], ethPrice := usd e,
        priceChange24h := usd_24h_change e, lastUpdate := Some now, error := None\<rparr>"
    by (simp add: fetchEthPrice_def fetchEthPrice_end_def fetchEthPrice_begin_def r(4))
  then show "\<exists>response e. fetched = Inr response \<and> json response = Inr (Quote_body (Ethereum e))
         \<and> \<not> declared_PriceData e
         \<and> ethPrice (fetchEthPrice now fetched s) = usd e
         \<and> priceChange24h (fetchEthPrice now fetched s) = usd_24h_change e
         \<and> error (fetchEthPrice now fetched s) = None
         \<and> console (fetchEthPrice now fetched s) = console s"
    using r(1,2,3) by simp
qed

theorem quote_fetch_failure_witness:
  "quote_fetch_throws too_many_requests
   \<and> ethPrice (fetchEthPrice 15000 too_many_requests quote_stored) = Num (Fin (6001 / 2))
   \<and> priceChange24h (fetchEthPrice 15000 too_many_requests quote_stored) = Num (Fin (- 9 / 4))
   \<and> error (fetchEthPrice 15000 too_many_requests quote_stored)
       = Some ''Error: HTTP error! status: 429. Retrying...''
   \<and> quote_fetch_fails change_missing \<and> \<not> quote_fetch_throws change_missing
   \<and> ethPrice (fetchEthPrice 15000 change_missing quote_stored) = Num (Fin 3000)
   \<and> priceChange24h (fetchEthPrice 15000 change_missing quote_stored) = Undefined"
proof -
  have t: "quote_fetch_throws too_many_requests"
    by (simp add: quote_fetch_throws_def non_2xx_def ok_def too_many_requests_def)
  have e: "error (fetchEthPrice 15000 too_many_requests quote_stored)
       = Some ''Error: HTTP error! status: 429. Retrying...''"
    by (simp add: fetchEthPrice_def fetchEthPrice_end_def fetchEthPrice_begin_def quote_try_def
        http_check_def ok_def digit_char_def too_many_requests_def)
  have f: "quote_fetch_fails change_missing"
    by (simp add: quote_fetch_fails_def malformed_quote_def ok_def change_missing_def
        declared_PriceData_def is_number_def)
  have n: "\<not> quote_fetch_throws change_missing"
    by (simp add: quote_fetch_throws_def network_error_def non_2xx_def unreadable_quote_def
        ok_def change_missing_def)
  from quote_fetch_failure [of too_many_requests 15000 quote_stored] t
  have "ethPrice (fetchEthPrice 15000 too_many_requests quote_stored) = ethPrice quote_stored"
    and "priceChange24h (fetchEthPrice 15000 too_many_requests quote_stored)
          = priceChange24h quote_stored"
    by blast+
  then have kept: "ethPrice (fetchEthPrice 15000 too_many_requests quote_stored) = Num (Fin (6001 / 2))"
      "priceChange24h (fetchEthPrice 15000 too_many_requests quote_stored) = Num (Fin (- 9 / 4))"
    by (simp_all add: quote_stored_def)
  from quote_fetch_failure [of change_missing 15000 quote_stored] f n
  obtain response e where "change_missing = Inr response"
      and "json response = Inr (Quote_body (Ethereum e))"
      and "ethPrice (fetchEthPrice 15000 change_missing quote_stored) = usd e"
      and "priceChange24h (fetchEthPrice 15000 change_missing quote_stored) = usd_24h_change e"
    by blast
  then have stored: "ethPrice (fetchEthPrice 15000 change_missing quote_stored) = Num (Fin 3000)"
      "priceChange24h (fetchEthPrice 15000 change_missing quote_stored) = Undefined"
    by (auto simp: change_missing_def)
  from t e f n kept stored show ?thesis
    by blast
qed

text \<open>
  C4 as stated covers every malformed payload. The body \<^verbatim>\<open>{"ethereum":{}}\<close> with status
  200 is malformed, yet the fetch overwrites the stored price and 24h change with
  \<^verbatim>\<open>undefined\<close>, sets no error message and writes nothing to the console.
\<close>

theorem malformed_quote_stored_counterexample:
  "quote_fetch_fails empty_ethereum
   \<and> ethPrice quote_stored = Num (Fin (6001 / 2))
   \<and> ethPrice (fetchEthPrice 15000 empty_ethereum quote_stored) = Undefined
   \<and> priceChange24h (fetchEthPrice 15000 empty_ethereum quote_stored) = Undefined
   \<and> error (fetchEthPrice 15000 empty_ethereum quote_stored) = None
   \<and> console (fetchEthPrice 15000 empty_ethereum quote_stored) = console quote_stored"
  by (simp add: quote_fetch_fails_def malformed_quote_def declared_PriceData_def is_number_def
      empty_ethereum_def quote_stored_def ok_def fetchEthPrice_def fetchEthPrice_end_def
      fetchEthPrice_begin_def quote_try_def http_check_def)

text \<open>
  C7. A short-term series fetch that fails leaves the series as it was and writes one
  line to the console; the error message is not touched, and no other state cell
  changes. The quote fetcher, given a settled request on which its \<^verbatim>\<open>try\<close> block
  throws, does set the error message.
\<close>

theorem chart_fetch_failure:
  assumes "series_fetch_fails fetched"
  shows "chartData (fetchChartData tf fetched s) = chartData s
    \<and> error (fetchChartData tf fetched s) = error s
    \<and> (\<exists>err. fetchChartData tf fetched s =
          s\<lparr>requests := requests s @ [chart_url (days tf)],
            console := console s @ [(''Failed to fetch chart data:'', err)]\<rparr>)
    \<and> (quote_fetch_throws fetched \<longrightarrow> error (fetchEthPrice now fetched s) \<noteq> None)"
proof -
  have "error (fetchEthPrice now fetched s) \<noteq> None" if "quote_fetch_throws fetched"
  proof -
    from that obtain err where "quote_try fetched = Inl err"
      by (auto simp: quote_try_throws)
    then show ?thesis
      by (simp add: fetchEthPrice_def fetchEthPrice_end_def Let_def)
  qed
  moreover
  from assms obtain err where err: "chart_try fetched = Inl err"
    by (auto simp: chart_try_fails)
  have "fetchChartData tf fetched s =
      s\<lparr>requests := requests s @ [chart_url (days tf)],
        console := console s @ [(''Failed to fetch chart data:'', err)]\<rparr>"
    by (simp add: fetchChartData_def fetchChartData_end_def fetchChartData_begin_def err)
  ultimately show ?thesis
    by auto
qed

theorem chart_fetch_failure_witness:
  "series_fetch_fails failed_to_fetch
   \<and> quote_fetch_throws failed_to_fetch
   \<and> chartData (fetchChartData ''7d'' failed_to_fetch
        (initial_state\<lparr>chartData := [point 1700000000000 100]\<rparr>)) = [point 1700000000000 100]
   \<and> error (fetchChartData ''7d'' failed_to_fetch
        (initial_state\<lparr>chartData := [point 1700000000000 100]\<rparr>)) = None
   \<and> error (fetchEthPrice 15000 failed_to_fetch
        (initial_state\<lparr>chartData := [point 1700000000000 100]\<rparr>)) \<noteq> None"
proof -
  have f: "series_fetch_fails failed_to_fetch"
    by (simp add: series_fetch_fails_def network_error_def failed_to_fetch_def)
  have q: "quote_fetch_throws failed_to_fetch"
    by (simp add: quote_fetch_throws_def network_error_def failed_to_fetch_def)
  from chart_fetch_failure [OF f, of "''7d''"
      "initial_state\<lparr>chartData := [point 1700000000000 100]\<rparr>" 15000]
  show ?thesis
    using f q by (simp add: initial_state_def)
qed

text \<open>
  C10. After a successful short-term series fetch the stored series is the array
  \<^verbatim>\<open>prices\<close> of the response, element by element: the same length and order, the first
  component of a pair as the time stamp and the second as the price.
\<close>

theorem chart_fetch_success:
  assumes "ok response" and "json response = Inr (Chart_body prices)"
  shows "chartData (fetchChartData tf (Inr response) s)
       = map (\<lambda>p. \<lparr>timestamp = fst p, price = snd p, date = None\<rparr>) prices
    \<and> length (chartData (fetchChartData tf (Inr response) s)) = length prices
    \<and> (\<forall>i < length prices.
          timestamp (chartData (fetchChartData tf (Inr response) s) ! i) = fst (prices ! i)
          \<and> price (chartData (fetchChartData tf (Inr response) s) ! i) = snd (prices ! i))"
  using assms
  by (simp add: fetchChartData_def fetchChartData_end_def fetchChartData_begin_def chart_try_def
      http_check_def format_chart_def)

theorem chart_fetch_success_witness:
  "ok \<lparr>status = 200, json = Inr (Chart_body [(Fin 1700003600000, Fin 110), (Fin 1700000000000, Fin 100)])\<rparr>
   \<and> chartData (fetchChartData ''24h''
        (Inr \<lparr>status = 200, json = Inr (Chart_body [(Fin 1700003600000, Fin 110), (Fin 1700000000000, Fin 100)])\<rparr>)
        initial_state)
     = [\<lparr>timestamp = Fin 1700003600000, price = Fin 110, date = None\<rparr>,
        \<lparr>timestamp = Fin 1700000000000, price = Fin 100, date = None\<rparr>]"
proof -
  have o: "ok \<lparr>status = 200, json = Inr (Chart_body [(Fin 1700003600000, Fin 110), (Fin 1700000000000, Fin 100)])\<rparr>"
    by (simp add: ok_def)
  from chart_fetch_success [OF o, of "[(Fin 1700003600000, Fin 110), (Fin 1700000000000, Fin 100)]"
      "''24h''" initial_state]
  show ?thesis
    using o by simp
qed

section \<open>Start-up, loading flags and the quote\<close>

lemma fetchEthPrice_begin_frame:
  "ethPrice (fetchEthPrice_begin s) = ethPrice s"
  "priceChange24h (fetchEthPrice_begin s) = priceChange24h s"
  "lastUpdate (fetchEthPrice_begin s) = lastUpdate s"
  "loading (fetchEthPrice_begin s) = loading s"
  "loadingHistory (fetchEthPrice_begin s) = loadingHistory s"
  "historicalData (fetchEthPrice_begin s) = historicalData s"
  "requests (fetchEthPrice_begin s) = requests s @ [quote_url]"
  by (simp_all add: fetchEthPrice_begin_def)

lemma fetchEthPrice_end_frame:
  "loading (fetchEthPrice_end now fetched s) = loading s"
  "loadingHistory (fetchEthPrice_end now fetched s) = loadingHistory s"
  "historicalData (fetchEthPrice_end now fetched s) = historicalData s"
  "requests (fetchEthPrice_end now fetched s) = requests s"
  by (simp_all add: fetchEthPrice_end_def Let_def split: sum.splits)

lemma fetchChartData_begin_frame:
  "ethPrice (fetchChartData_begin tf s) = ethPrice s"
  "priceChange24h (fetchChartData_begin tf s) = priceChange24h s"
  "lastUpdate (fetchChartData_begin tf s) = lastUpdate s"
  "loading (fetchChartData_begin tf s) = loading s"
  "loadingHistory (fetchChartData_begin tf s) = loadingHistory s"
  "historicalData (fetchChartData_begin tf s) = historicalData s"
  "requests (fetchChartData_begin tf s) = requests s @ [chart_url (days tf)]"
  by (simp_all add: fetchChartData_begin_def)

lemma fetchChartData_end_frame:
  "ethPrice (fetchChartData_end fetched s) = ethPrice s"
  "priceChange24h (fetchChartData_end fetched s) = priceChange24h s"
  "lastUpdate (fetchChartData_end fetched s) = lastUpdate s"
  "loading (fetchChartData_end fetched s) = loading s"
  "loadingHistory (fetchChartData_end fetched s) = loadingHistory s"
  "historicalData (fetchChartData_end fetched s) = historicalData s"
  "requests (fetchChartData_end fetched s) = requests s"
  by (simp_all add: fetchChartData_end_def split: sum.splits)

lemma fetchHistoricalData_begin_frame:
  "ethPrice (fetchHistoricalData_begin s) = ethPrice s"
  "priceChange24h (fetchHistoricalData_begin s) = priceChange24h s"
  "lastUpdate (fetchHistoricalData_begin s) = lastUpdate s"
  "loading (fetchHistoricalData_begin s) = loading s"
  "loadingHistory (fetchHistoricalData_begin s) = True"
  "historicalData (fetchHistoricalData_begin s) = historicalData s"
  "requests (fetchHistoricalData_begin s) = requests s @ [historical_url]"
  by (simp_all add: fetchHistoricalData_begin_def)

lemma fetchHistoricalData_end_frame:
  "ethPrice (fetchHistoricalData_end fmt fetched s) = ethPrice s"
  "priceChange24h (fetchHistoricalData_end fmt fetched s) = priceChange24h s"
  "lastUpdate (fetchHistoricalData_end fmt fetched s) = lastUpdate s"
  "loading (fetchHistoricalData_end fmt fetched s) = loading s"
  "loadingHistory (fetchHistoricalData_end fmt fetched s) = False"
  "requests (fetchHistoricalData_end fmt fetched s) = requests s"
  by (simp_all add: fetchHistoricalData_end_def split: sum.splits)

lemmas frame =
  fetchEthPrice_begin_frame fetchEthPrice_end_frame fetchChartData_begin_frame
  fetchChartData_end_frame fetchHistoricalData_begin_frame fetchHistoricalData_end_frame

lemma quote_whole_fetchEthPrice_end:
  "quote_whole s \<Longrightarrow> quote_as_declared fetched \<Longrightarrow> quote_whole (fetchEthPrice_end now fetched s)"
  by (auto simp: quote_whole_def quote_as_declared_def declared_PriceData_def
      fetchEthPrice_end_def Let_def split: sum.splits)

lemma quote_whole_background:
  "quote_whole s \<Longrightarrow> background_as_declared b \<Longrightarrow> quote_whole (background_step b s)"
  by (cases b) (auto simp: quote_whole_fetchEthPrice_end, auto simp: quote_whole_def frame)

lemma quote_whole_resume:
  assumes "quote_whole s" and "pc = AwaitQuote \<longrightarrow> quote_as_declared fetched"
  shows "quote_whole (fst (initializeData_resume fmt tf now fetched (s, pc)))"
proof (cases pc)
  case AwaitQuote
  then have "quote_whole (fetchEthPrice_end now fetched s)"
    using assms by (simp add: quote_whole_fetchEthPrice_end)
  then show ?thesis
    using AwaitQuote by (simp add: quote_whole_def frame)
qed (use assms(1) in \<open>simp_all add: quote_whole_def frame\<close>)

lemma reachable_declared_quote_whole:
  "reachable_declared fmt c \<Longrightarrow> quote_whole (fst c)"
proof (induction rule: reachable_declared.induct)
  case mounted
  show ?case
    by (simp add: mount_effect_def quote_whole_def frame initial_state_def)
next
  case (resumed s pc fetched now)
  then show ?case
    using quote_whole_resume [of s pc fetched fmt "timeframe initial_state" now] by simp
next
  case (background s pc b)
  then show ?case
    by (simp add: quote_whole_background)
qed

lemma reachable_declared_reachable:
  "reachable_declared fmt c \<Longrightarrow> reachable fmt c"
  by (induction rule: reachable_declared.induct) (auto intro: reachable.intros)

lemma background_step_frame:
  "loading (background_step b s) = loading s"
  "loadingHistory (background_step b s) = loadingHistory s"
  "historicalData (background_step b s) = historicalData s"
  by (cases b; simp add: frame)+

lemma run_background_frame:
  "loading (run_background bs s) = loading s"
  "loadingHistory (run_background bs s) = loadingHistory s"
  "historicalData (run_background bs s) = historicalData s"
  unfolding run_background_def
  by (induction bs arbitrary: s; simp add: background_step_frame)+

lemma startup_inv_resume:
  "startup_inv c \<Longrightarrow> startup_inv (initializeData_resume fmt tf now fetched c)"
  by (cases c, cases "snd c") (auto simp: startup_inv_def frame)

lemma reachable_startup_inv:
  "reachable fmt c \<Longrightarrow> startup_inv c"
proof (induction rule: reachable.induct)
  case mounted
  show ?case
    by (simp add: mount_effect_def startup_inv_def frame initial_state_def)
next
  case (resumed c now fetched)
  then show ?case
    by (simp add: startup_inv_resume)
next
  case (background s pc b)
  then show ?case
    by (simp add: startup_inv_def background_step_frame)
qed


text \<open>
  C9, as the code has it. The quote is absent in the initial state. In every
  configuration reached while each settled quote request is as declared, the quote is
  absent (price and 24h change \<^verbatim>\<open>null\<close>, no time of update) or whole (price and 24h
  change numbers, the time of update set); each such configuration is one of the
  reachable ones.
\<close>

theorem quote_never_partial:
  assumes "reachable_declared fmt (s, pc)"
  shows "(ethPrice initial_state = Null \<and> priceChange24h initial_state = Null)
    \<and> ((ethPrice s = Null \<and> priceChange24h s = Null \<and> lastUpdate s = None)
       \<or> (\<exists>p c t. ethPrice s = Num p \<and> priceChange24h s = Num c \<and> lastUpdate s = Some t))
    \<and> reachable fmt (s, pc)"
proof -
  have "is_number v \<longleftrightarrow> (\<exists>n. v = Num n)" for v
    by (cases v) (simp_all add: is_number_def)
  then show ?thesis
    using reachable_declared_quote_whole [OF assms] reachable_declared_reachable [OF assms]
    by (auto simp: quote_whole_def initial_state_def)
qed

theorem quote_never_partial_witness:
  "reachable_declared (\<lambda>t. ''Jan 24'')
     (initializeData_resume (\<lambda>t. ''Jan 24'') (timeframe initial_state) 1700000000000 good_quote
        (mount_effect initial_state))
   \<and> ethPrice (fst (initializeData_resume (\<lambda>t. ''Jan 24'') (timeframe initial_state)
        1700000000000 good_quote (mount_effect initial_state))) = Num (Fin (6001 / 2))
   \<and> (\<exists>c t. priceChange24h (fst (initializeData_resume (\<lambda>t. ''Jan 24'') (timeframe initial_state)
        1700000000000 good_quote (mount_effect initial_state))) = Num c
      \<and> lastUpdate (fst (initializeData_resume (\<lambda>t. ''Jan 24'') (timeframe initial_state)
        1700000000000 good_quote (mount_effect initial_state))) = Some t)"
proof -
  define c where "c = initializeData_resume (\<lambda>t. ''Jan 24'') (timeframe initial_state)
        1700000000000 good_quote (mount_effect initial_state)"
  have d: "quote_as_declared good_quote"
    by (simp add: quote_as_declared_def quote_try_def http_check_def ok_def good_quote_def
        declared_PriceData_def is_number_def)
  have "reachable_declared (\<lambda>t. ''Jan 24'')
      (initializeData_resume (\<lambda>t. ''Jan 24'') (timeframe initial_state) 1700000000000 good_quote
        (fetchEthPrice_begin (initial_state\<lparr>loading := True\<rparr>), AwaitQuote))"
    using reachable_declared.mounted [of "\<lambda>t. ''Jan 24''"] d
    by (intro reachable_declared.resumed) (simp_all add: mount_effect_def)
  then have r: "reachable_declared (\<lambda>t. ''Jan 24'') c"
    by (simp add: c_def mount_effect_def)
  have p: "ethPrice (fst c) = Num (Fin (6001 / 2))"
    by (simp add: c_def mount_effect_def fetchEthPrice_end_def fetchChartData_begin_def
        fetchEthPrice_begin_def quote_try_def http_check_def ok_def good_quote_def)
  from r have "reachable_declared (\<lambda>t. ''Jan 24'') (fst c, snd c)"
    by simp
  from quote_never_partial [OF this] p
  have "\<exists>c' t. priceChange24h (fst c) = Num c' \<and> lastUpdate (fst c) = Some t"
    by auto
  with r p show ?thesis
    unfolding c_def by blast
qed

text \<open>
  C9 as stated holds in every reachable state. The start-up whose quote request
  settles to the body \<^verbatim>\<open>{"ethereum":{"usd":3000}}\<close> reaches a configuration with the
  price set and the 24h change \<^verbatim>\<open>undefined\<close>.
\<close>

theorem partial_quote_counterexample:
  "reachable (\<lambda>t. ''Invalid Date'') partial_quote_startup
   \<and> ethPrice (fst partial_quote_startup) = Num (Fin 3000)
   \<and> priceChange24h (fst partial_quote_startup) = Undefined"
proof -
  have "reachable (\<lambda>t. ''Invalid Date'')
      (initializeData_resume (\<lambda>t. ''Invalid Date'') (timeframe initial_state) 0 change_missing
        (mount_effect initial_state))"
    by (intro reachable.resumed reachable.mounted)
  then have "reachable (\<lambda>t. ''Invalid Date'') partial_quote_startup"
    by (simp add: partial_quote_startup_def initial_state_def)
  then show ?thesis
    by (simp add: partial_quote_startup_def mount_effect_def change_missing_def frame
        fetchEthPrice_end_def fetchEthPrice_begin_def quote_try_def http_check_def ok_def)
qed

lemma run_background_requests:
  "requests (run_background bs s) = requests s @ background_requests bs"
  unfolding run_background_def
  by (induction bs arbitrary: s rule: background_requests.induct) (simp_all add: frame)

text \<open>
  C6. In a start-up the three fetchers run one after the other: the request of the next
  fetcher is issued by the resumption that ends the one before, whatever the three
  requests settled to and whatever ran in the background. \<^verbatim>\<open>loading\<close> is true in every
  configuration before the last resumption and false after it.
\<close>

theorem startup_sequence:
  "map snd (startup_run fmt now r1 r2 r3 b1 b2 b3 s0) = [AwaitQuote, AwaitChart, AwaitHistory, InitDone]
   \<and> map (loading \<circ> fst) (startup_run fmt now r1 r2 r3 b1 b2 b3 s0) = [True, True, True, False]
   \<and> loading (run_background b1 (fst (startup_run fmt now r1 r2 r3 b1 b2 b3 s0 ! 0)))
   \<and> loading (run_background b2 (fst (startup_run fmt now r1 r2 r3 b1 b2 b3 s0 ! 1)))
   \<and> loading (run_background b3 (fst (startup_run fmt now r1 r2 r3 b1 b2 b3 s0 ! 2)))
   \<and> map (requests \<circ> fst) (startup_run fmt now r1 r2 r3 b1 b2 b3 s0) =
       [requests s0 @ [quote_url],
        requests s0 @ [quote_url] @ background_requests b1 @ [chart_url (days (timeframe s0))],
        requests s0 @ [quote_url] @ background_requests b1 @ [chart_url (days (timeframe s0))]
          @ background_requests b2 @ [historical_url],
        requests s0 @ [quote_url] @ background_requests b1 @ [chart_url (days (timeframe s0))]
          @ background_requests b2 @ [historical_url] @ background_requests b3]"
  by (simp add: startup_run_def mount_effect_def frame run_background_frame run_background_requests)

text \<open>
  C8, as the code has it. In a reachable configuration \<^verbatim>\<open>loadingHistory\<close> is true exactly
  while \<^verbatim>\<open>initializeData\<close> waits for the historical request, and false once that request
  has settled, whatever it settled to. After a failure the historical series is empty.
  The view shows the loading text, the failure text or the chart only if a price is
  stored; while \<^verbatim>\<open>ethPrice\<close> is \<^verbatim>\<open>null\<close> it shows nothing of the historical section, and
  when \<^verbatim>\<open>ethPrice\<close> is \<^verbatim>\<open>undefined\<close> the render throws before it gets there.
\<close>

theorem history_loading_flag:
  assumes "reachable fmt (s, pc)"
  shows "(loadingHistory s \<longleftrightarrow> pc = AwaitHistory)
    \<and> render_history s =
        (if ethPrice s = Null then Inr None
         else if ethPrice s = Undefined then Inl (undefined_member ''toLocaleString'')
         else if pc = AwaitHistory then Inr (Some Loading_history)
         else if historicalData s = [] then Inr (Some Failed_history)
         else Inr (Some (History_chart (historicalData s))))
    \<and> (pc = AwaitHistory \<longrightarrow>
         \<not> loadingHistory (fst (initializeData_resume fmt tf now fetched (s, pc)))
         \<and> (series_fetch_fails fetched \<longrightarrow>
              historicalData (fst (initializeData_resume fmt tf now fetched (s, pc))) = []
              \<and> render_history (fst (initializeData_resume fmt tf now fetched (s, pc))) =
                  (if ethPrice s = Null then Inr None
                   else if ethPrice s = Undefined then Inl (undefined_member ''toLocaleString'')
                   else Inr (Some Failed_history))))"
proof -
  from reachable_startup_inv [OF assms]
  have flag: "loadingHistory s \<longleftrightarrow> pc = AwaitHistory"
    and empty: "pc \<noteq> InitDone \<Longrightarrow> historicalData s = []"
    by (simp_all add: startup_inv_def)
  have view: "render_history s =
        (if ethPrice s = Null then Inr None
         else if ethPrice s = Undefined then Inl (undefined_member ''toLocaleString'')
         else if pc = AwaitHistory then Inr (Some Loading_history)
         else if historicalData s = [] then Inr (Some Failed_history)
         else Inr (Some (History_chart (historicalData s))))"
    using flag by (simp add: render_history_def)
  have after: "\<not> loadingHistory (fst (initializeData_resume fmt tf now fetched (s, pc)))
         \<and> (series_fetch_fails fetched \<longrightarrow>
              historicalData (fst (initializeData_resume fmt tf now fetched (s, pc))) = []
              \<and> render_history (fst (initializeData_resume fmt tf now fetched (s, pc))) =
                  (if ethPrice s = Null then Inr None
                   else if ethPrice s = Undefined then Inl (undefined_member ''toLocaleString'')
                   else Inr (Some Failed_history)))"
    if pc: "pc = AwaitHistory"
  proof -
    have e: "historicalData s = []"
      using empty pc by simp
    have "historicalData (fetchHistoricalData_end fmt fetched s) = []"
      if "series_fetch_fails fetched"
    proof -
      from that obtain err where "historical_try fmt fetched = Inl err"
        by (auto simp: historical_try_fails [of fetched fmt])
      then show ?thesis
        using e by (simp add: fetchHistoricalData_end_def)
    qed
    then show ?thesis
      using pc by (simp add: render_history_def frame)
  qed
  from flag view after show ?thesis
    by blast
qed

theorem history_loading_flag_witness:
  "reachable (\<lambda>t. ''Jan 24'')
     (fetchHistoricalData_begin (fetchChartData_end failed_to_fetch
        (fetchChartData_begin ''24h''
          (fetchEthPrice_end 5 good_quote
            (fetchEthPrice_begin (initial_state\<lparr>loading := True\<rparr>))))), AwaitHistory)
   \<and> series_fetch_fails failed_to_fetch
   \<and> render_history (fst (initializeData_resume (\<lambda>t. ''Jan 24'') ''24h'' 7 failed_to_fetch
       (fetchHistoricalData_begin (fetchChartData_end failed_to_fetch
        (fetchChartData_begin ''24h''
          (fetchEthPrice_end 5 good_quote
            (fetchEthPrice_begin (initial_state\<lparr>loading := True\<rparr>))))), AwaitHistory)))
     = Inr (Some Failed_history)"
proof -
  define s where "s = fetchHistoricalData_begin (fetchChartData_end failed_to_fetch
        (fetchChartData_begin ''24h''
          (fetchEthPrice_end 5 good_quote
            (fetchEthPrice_begin (initial_state\<lparr>loading := True\<rparr>)))))"
  have "reachable (\<lambda>t. ''Jan 24'')
      (initializeData_resume (\<lambda>t. ''Jan 24'') (timeframe initial_state) 5 failed_to_fetch
        (initializeData_resume (\<lambda>t. ''Jan 24'') (timeframe initial_state) 5 good_quote
          (mount_effect initial_state)))"
    by (intro reachable.resumed reachable.mounted)
  then have r: "reachable (\<lambda>t. ''Jan 24'') (s, AwaitHistory)"
    by (simp add: s_def mount_effect_def initial_state_def)
  have f: "series_fetch_fails failed_to_fetch"
    by (simp add: series_fetch_fails_def network_error_def failed_to_fetch_def)
  have p: "ethPrice s = Num (Fin (6001 / 2))"
    by (simp add: s_def frame fetchEthPrice_end_def quote_try_def http_check_def ok_def
        good_quote_def)
  from history_loading_flag [OF r, of "''24h''" 7 failed_to_fetch] f p
  have "render_history (fst (initializeData_resume (\<lambda>t. ''Jan 24'') ''24h'' 7 failed_to_fetch
       (s, AwaitHistory))) = Inr (Some Failed_history)"
    by simp
  with r f show ?thesis
    unfolding s_def by blast
qed

text \<open>
  C8 as stated has the view render a failure message once the historical fetch has
  failed. When all three requests of the start-up are rejected, the series is empty, the
  flag is false and the view renders no historical section at all.
\<close>

theorem history_failure_hidden_counterexample:
  "snd offline_startup = InitDone
   \<and> historicalData (fst offline_startup) = []
   \<and> \<not> loadingHistory (fst offline_startup)
   \<and> render_history (fst offline_startup) = Inr None"
  by (simp add: offline_startup_def mount_effect_def failed_to_fetch_def frame render_history_def
      fetchHistoricalData_end_def historical_try_def fetchEthPrice_end_def quote_try_def
      initial_state_def)

section \<open>The day count of a time frame\<close>

lemma timeframe_background:
  "is_Timeframe (timeframe s) \<Longrightarrow> is_Timeframe (timeframe (background_step b s))"
  by (cases b)
    (simp_all add: is_Timeframe_def fetchEthPrice_begin_def fetchEthPrice_end_def Let_def
      fetchChartData_begin_def fetchChartData_end_def split: sum.splits)

lemma timeframe_resume:
  "is_Timeframe (timeframe s) \<Longrightarrow>
   is_Timeframe (timeframe (fst (initializeData_resume fmt tf now fetched (s, pc))))"
  by (cases pc)
    (simp_all add: is_Timeframe_def fetchEthPrice_end_def Let_def fetchChartData_begin_def
      fetchChartData_end_def fetchHistoricalData_begin_def fetchHistoricalData_end_def
      split: sum.splits)

lemma reachable_timeframe:
  "reachable fmt c \<Longrightarrow> is_Timeframe (timeframe (fst c))"
proof (induction rule: reachable.induct)
  case mounted
  show ?case
    by (simp add: mount_effect_def fetchEthPrice_begin_def initial_state_def is_Timeframe_def)
next
  case (resumed c now fetched)
  then show ?case
    using timeframe_resume [of "fst c" fmt "timeframe initial_state" now fetched "snd c"] by simp
next
  case (background s pc b)
  then show ?case
    by (simp add: timeframe_background)
qed

text \<open>
  C3. \<^verbatim>\<open>'24h'\<close> gives 1, \<^verbatim>\<open>'7d'\<close> gives 7 and \<^verbatim>\<open>'30d'\<close> gives 30. On the three time
  frames each day count belongs to exactly one of them, so that the last branch of the
  conditional of line 55 is taken by \<^verbatim>\<open>'30d'\<close> and by no other time frame; and the state
  cell \<^verbatim>\<open>timeframe\<close> holds one of the three in every reachable configuration.
\<close>

theorem days_mapping:
  "days ''24h'' = 1 \<and> days ''7d'' = 7 \<and> days ''30d'' = 30
   \<and> (is_Timeframe tf \<longrightarrow>
        (days tf = 1 \<longleftrightarrow> tf = ''24h'') \<and> (days tf = 7 \<longleftrightarrow> tf = ''7d'')
        \<and> (days tf = 30 \<longleftrightarrow> tf = ''30d''))
   \<and> (reachable fmt (s, pc) \<longrightarrow> is_Timeframe (timeframe s))"
  using reachable_timeframe [of fmt "(s, pc)"]
  by (auto simp: days_def is_Timeframe_def)

theorem days_mapping_witness:
  "is_Timeframe ''30d''
   \<and> reachable (\<lambda>t. ''Jan 24'') (background_step Clicked_30d (fst (mount_effect initial_state)), AwaitQuote)
   \<and> timeframe (background_step Clicked_30d (fst (mount_effect initial_state))) = ''30d''
   \<and> days (timeframe (background_step Clicked_30d (fst (mount_effect initial_state)))) = 30"
proof -
  have t: "is_Timeframe ''30d''"
    by (simp add: is_Timeframe_def)
  have "reachable (\<lambda>t. ''Jan 24'') (fst (mount_effect initial_state), AwaitQuote)"
    using reachable.mounted [of "\<lambda>t. ''Jan 24''"] by (simp add: mount_effect_def)
  then have r: "reachable (\<lambda>t. ''Jan 24'')
      (background_step Clicked_30d (fst (mount_effect initial_state)), AwaitQuote)"
    by (rule reachable.background)
  have e: "timeframe (background_step Clicked_30d (fst (mount_effect initial_state))) = ''30d''"
    by simp
  from days_mapping [of "''30d''" "\<lambda>t. ''Jan 24''"
      "background_step Clicked_30d (fst (mount_effect initial_state))" AwaitQuote] t r
  have "days ''30d'' = 30"
    and "is_Timeframe (timeframe (background_step Clicked_30d (fst (mount_effect initial_state))))"
    by blast+
  with t r e show ?thesis
    by simp
qed

end
